theory Spec2Isabelle
  imports Complex_Main
begin

section \<open>Python values, exceptions and built-ins\<close>

text \<open>
  The context documents, rule conditions and node outputs of both engines are JSON-like
  Python values. \<open>PObject\<close> stands for any other Python object (for instance the bound
  method that \<open>getattr('abc', 'upper', None)\<close> returns). A string is the list of its
  characters, with code points below 256. A float is the rational number that the
  double stands for; infinities and NaN are not values of the model. A dictionary is an
  association list read by its first matching key.
\<close>

datatype pyval =
    PNone
  | PBool bool
  | PInt int
  | PFloat rat
  | PStr string
  | PList "pyval list"
  | PDict "(string \<times> pyval) list"
  | PObject string

text \<open>
  Exceptions are values. A message keeps its fixed text; interpolated values are dropped.
  \<open>RuleEvaluationError\<close> is the class of that name in
  \<open>agentic-flow-builder/scripts/business_rules_engine.py\<close>, with the exception it wraps;
  \<open>PyException\<close> is a plain \<open>Exception(message)\<close>.
\<close>

datatype py_exn =
    KeyError pyval
  | IndexError
  | TypeError
  | AttributeError
  | ValueError string
  | RegexError
  | RuleEvaluationError string "py_exn option"
  | PyException string

text \<open>
  What the code takes from the Python library and the model does not spell out is a
  parameter: \<open>int(s)\<close> on a string that is not plain digits and \<open>float(s)\<close> on a string
  (\<open>None\<close> is ValueError), the rounding \<open>fl\<close> of a real number to the nearest double, by
  which the arithmetic of floats and the conversion of an integer to a float are
  computed (results beyond the range of the doubles are outside the model), the \<open>repr\<close> of floats,
  lists, dictionaries and objects, the formatting of a number in an f-string (by its format
  specification), \<open>re.match(pattern, s)\<close> (\<open>None\<close> is \<open>re.error\<close>),
  \<open>getattr(v, name, None)\<close> on a value that is not a dictionary, and \<open>str(e)\<close> of an
  exception. Every theorem below holds for every such library.
\<close>

record pylib =
  int_of_str :: "string \<Rightarrow> int option"
  float_of_str :: "string \<Rightarrow> rat option"
  fl :: "rat \<Rightarrow> rat"
  repr_of :: "pyval \<Rightarrow> string"
  format_num :: "string \<Rightarrow> rat \<Rightarrow> string"
  re_match :: "string \<Rightarrow> string \<Rightarrow> bool option"
  getattr_of :: "pyval \<Rightarrow> string \<Rightarrow> pyval"
  exn_text :: "py_exn \<Rightarrow> string"

subsection \<open>Strings\<close>

fun startswith :: "string \<Rightarrow> string \<Rightarrow> bool" where
  "startswith s [] = True"
| "startswith [] (p # ps) = False"
| "startswith (c # s) (p # ps) = (c = p \<and> startswith s ps)"

text \<open>\<open>sub in s\<close> on two strings.\<close>

fun str_in :: "string \<Rightarrow> string \<Rightarrow> bool" where
  "str_in sub [] = (sub = [])"
| "str_in sub (c # s) = (startswith (c # s) sub \<or> str_in sub s)"

definition endswith :: "string \<Rightarrow> string \<Rightarrow> bool" where
  "endswith s suffix = startswith (rev s) (rev suffix)"

text \<open>\<open>s.split(c)\<close> for a one-character separator: never empty, \<open>''.split('.') = ['']\<close>.\<close>

fun split_on :: "char \<Rightarrow> string \<Rightarrow> string list" where
  "split_on c [] = [[]]"
| "split_on c (x # xs) =
     (if x = c then [] # split_on c xs
      else (case split_on c xs of
              [] \<Rightarrow> [[x]]
            | p # ps \<Rightarrow> (x # p) # ps))"

definition rstrip :: "char \<Rightarrow> string \<Rightarrow> string" where
  "rstrip c s = rev (dropWhile (\<lambda>x. x = c) (rev s))"

definition is_digit :: "char \<Rightarrow> bool" where
  "is_digit c = (let n = (of_char c :: nat) in 48 \<le> n \<and> n \<le> 57)"

definition digit_val :: "char \<Rightarrow> nat" where
  "digit_val c = (of_char c :: nat) - 48"

text \<open>
  \<open>int(s)\<close>: on a string of decimal digits \<open>0\<close> to \<open>9\<close>, at most 4300 of them (the limit
  of \<open>int\<close> on the length of a number), the number they write; on every other string
  (signs, spaces, underscores, other digits, longer numbers) what the library says.
  \<open>None\<close> is ValueError.
\<close>

definition py_int :: "pylib \<Rightarrow> string \<Rightarrow> int option" where
  "py_int L s =
     (if s \<noteq> [] \<and> list_all is_digit s \<and> length s \<le> 4300
      then Some (int (foldl (\<lambda>n c. 10 * n + digit_val c) 0 s))
      else int_of_str L s)"

fun show_digits :: "nat \<Rightarrow> nat \<Rightarrow> string" where
  "show_digits 0 n = []"
| "show_digits (Suc k) n =
     (if n < 10 then [char_of (48 + n)]
      else show_digits k (n div 10) @ [char_of (48 + n mod 10)])"

definition show_int :: "int \<Rightarrow> string" where
  "show_int i =
     (if i < 0 then CHR ''-'' # show_digits (Suc (nat (- i))) (nat (- i))
      else show_digits (Suc (nat i)) (nat i))"

subsection \<open>Operations on values\<close>

text \<open>\<open>d.get(k)\<close>: the value, or \<open>None\<close>.\<close>

definition dict_get :: "(string \<times> pyval) list \<Rightarrow> string \<Rightarrow> pyval" where
  "dict_get d k = (case map_of d k of None \<Rightarrow> PNone | Some v \<Rightarrow> v)"

text \<open>\<open>bool(v)\<close>.\<close>

fun truthy :: "pyval \<Rightarrow> bool" where
  "truthy PNone = False"
| "truthy (PBool b) = b"
| "truthy (PInt i) = (i \<noteq> 0)"
| "truthy (PFloat x) = (x \<noteq> 0)"
| "truthy (PStr s) = (s \<noteq> [])"
| "truthy (PList xs) = (xs \<noteq> [])"
| "truthy (PDict d) = (d \<noteq> [])"
| "truthy (PObject s) = True"

text \<open>The number a \<open>bool\<close>, \<open>int\<close> or \<open>float\<close> stands for (\<open>True == 1 == 1.0\<close>).\<close>

fun num_of :: "pyval \<Rightarrow> rat option" where
  "num_of (PBool b) = Some (if b then 1 else 0)"
| "num_of (PInt i) = Some (of_int i)"
| "num_of (PFloat x) = Some x"
| "num_of v = None"

text \<open>\<open>a == b\<close>.\<close>

fun py_eq :: "pyval \<Rightarrow> pyval \<Rightarrow> bool"
  and py_eq_list :: "pyval list \<Rightarrow> pyval list \<Rightarrow> bool"
  and py_eq_items :: "(string \<times> pyval) list \<Rightarrow> (string \<times> pyval) list \<Rightarrow> bool" where
  "py_eq (PList xs) b = (case b of PList ys \<Rightarrow> py_eq_list xs ys | _ \<Rightarrow> False)"
| "py_eq (PDict xs) b =
     (case b of PDict ys \<Rightarrow> length xs = length ys \<and> py_eq_items xs ys | _ \<Rightarrow> False)"
| "py_eq (PStr s) b = (case b of PStr t \<Rightarrow> s = t | _ \<Rightarrow> False)"
| "py_eq PNone b = (b = PNone)"
| "py_eq (PObject s) b = (b = PObject s)"
| "py_eq (PBool x) b = (num_of b = Some (if x then 1 else 0))"
| "py_eq (PInt i) b = (num_of b = Some (of_int i))"
| "py_eq (PFloat x) b = (num_of b = Some x)"
| "py_eq_list [] ys = (ys = [])"
| "py_eq_list (x # xs) ys = (case ys of [] \<Rightarrow> False | y # ys' \<Rightarrow> py_eq x y \<and> py_eq_list xs ys')"
| "py_eq_items [] ys = True"
| "py_eq_items (kv # xs) ys =
     (case map_of ys (fst kv) of
        None \<Rightarrow> False
      | Some w \<Rightarrow> py_eq (snd kv) w \<and> py_eq_items xs ys)"

datatype ordop = Lt | Le | Gt | Ge

fun ord_holds :: "ordop \<Rightarrow> ('a :: linorder) \<Rightarrow> 'a \<Rightarrow> bool" where
  "ord_holds Lt a b = (a < b)"
| "ord_holds Le a b = (a \<le> b)"
| "ord_holds Gt a b = (b < a)"
| "ord_holds Ge a b = (b \<le> a)"

text \<open>Strings order lexicographically by character code.\<close>

fun str_ord :: "ordop \<Rightarrow> string \<Rightarrow> string \<Rightarrow> bool" where
  "str_ord opr [] [] = (opr = Le \<or> opr = Ge)"
| "str_ord opr [] (y # ys) = (opr = Lt \<or> opr = Le)"
| "str_ord opr (x # xs) [] = (opr = Gt \<or> opr = Ge)"
| "str_ord opr (x # xs) (y # ys) =
     (if x = y then str_ord opr xs ys
      else ord_holds opr (of_char x :: nat) (of_char y))"

text \<open>
  \<open>a < b\<close>, \<open>a <= b\<close>, \<open>a > b\<close>, \<open>a >= b\<close>: numbers with numbers, strings with strings,
  lists with lists (at the first pair that is not equal); anything else is TypeError.
\<close>

fun py_ord :: "ordop \<Rightarrow> pyval \<Rightarrow> pyval \<Rightarrow> py_exn + bool"
  and py_ord_list :: "ordop \<Rightarrow> pyval list \<Rightarrow> pyval list \<Rightarrow> py_exn + bool" where
  "py_ord opr (PList xs) b = (case b of PList ys \<Rightarrow> py_ord_list opr xs ys | _ \<Rightarrow> Inl TypeError)"
| "py_ord opr (PStr s) b = (case b of PStr t \<Rightarrow> Inr (str_ord opr s t) | _ \<Rightarrow> Inl TypeError)"
| "py_ord opr a b =
     (case (num_of a, num_of b) of
        (Some x, Some y) \<Rightarrow> Inr (ord_holds opr x y)
      | _ \<Rightarrow> Inl TypeError)"
| "py_ord_list opr [] ys = Inr (if ys = [] then opr = Le \<or> opr = Ge else opr = Lt \<or> opr = Le)"
| "py_ord_list opr (x # xs) ys =
     (case ys of
        [] \<Rightarrow> Inr (opr = Gt \<or> opr = Ge)
      | y # ys' \<Rightarrow> if py_eq x y then py_ord_list opr xs ys' else py_ord opr x y)"

text \<open>\<open>key in v\<close> for a string key: dictionary key, list element, substring.\<close>

fun key_in :: "string \<Rightarrow> pyval \<Rightarrow> py_exn + bool" where
  "key_in k (PDict d) = Inr (k \<in> set (map fst d))"
| "key_in k (PList xs) = Inr (PStr k \<in> set xs)"
| "key_in k (PStr s) = Inr (str_in k s)"
| "key_in k v = Inl TypeError"

text \<open>\<open>v[k]\<close> for a string key.\<close>

fun getitem_str :: "pyval \<Rightarrow> string \<Rightarrow> py_exn + pyval" where
  "getitem_str (PDict d) k = (case map_of d k of None \<Rightarrow> Inl (KeyError (PStr k)) | Some v \<Rightarrow> Inr v)"
| "getitem_str v k = Inl TypeError"

text \<open>\<open>v[i]\<close> for an integer: negative indices count from the end.\<close>

definition list_index :: "'a list \<Rightarrow> int \<Rightarrow> 'a option" where
  "list_index xs i =
     (let n = int (length xs); j = (if i < 0 then n + i else i)
      in if 0 \<le> j \<and> j < n then Some (xs ! nat j) else None)"

fun getitem_int :: "pyval \<Rightarrow> int \<Rightarrow> py_exn + pyval" where
  "getitem_int (PList xs) i = (case list_index xs i of None \<Rightarrow> Inl IndexError | Some v \<Rightarrow> Inr v)"
| "getitem_int (PStr s) i = (case list_index s i of None \<Rightarrow> Inl IndexError | Some c \<Rightarrow> Inr (PStr [c]))"
| "getitem_int (PDict d) i = Inl (KeyError (PInt i))"
| "getitem_int v i = Inl TypeError"

text \<open>Iteration: list elements, dictionary keys, the characters of a string.\<close>

fun py_iter :: "pyval \<Rightarrow> py_exn + pyval list" where
  "py_iter (PList xs) = Inr xs"
| "py_iter (PDict d) = Inr (map (\<lambda>kv. PStr (fst kv)) d)"
| "py_iter (PStr s) = Inr (map (\<lambda>c. PStr [c]) s)"
| "py_iter v = Inl TypeError"

fun hashable :: "pyval \<Rightarrow> bool" where
  "hashable (PList xs) = False"
| "hashable (PDict d) = False"
| "hashable v = True"

text \<open>\<open>a in v\<close> for any left operand.\<close>

fun py_in :: "pyval \<Rightarrow> pyval \<Rightarrow> py_exn + bool" where
  "py_in a (PList xs) = Inr (list_ex (py_eq a) xs)"
| "py_in a (PDict d) = (if hashable a then Inr (list_ex (\<lambda>kv. a = PStr (fst kv)) d) else Inl TypeError)"
| "py_in a (PStr s) = (case a of PStr t \<Rightarrow> Inr (str_in t s) | _ \<Rightarrow> Inl TypeError)"
| "py_in a v = Inl TypeError"

text \<open>\<open>str(v)\<close>: spelled out where it is plain, the library's \<open>repr\<close> otherwise.\<close>

fun py_str :: "pylib \<Rightarrow> pyval \<Rightarrow> string" where
  "py_str L PNone = ''None''"
| "py_str L (PBool b) = (if b then ''True'' else ''False'')"
| "py_str L (PInt i) = show_int i"
| "py_str L (PStr s) = s"
| "py_str L v = repr_of L v"

text \<open>\<open>float(v)\<close>: an integer is rounded to the nearest double.\<close>

fun py_float :: "pylib \<Rightarrow> pyval \<Rightarrow> py_exn + rat" where
  "py_float L (PStr s) = (case float_of_str L s of None \<Rightarrow> Inl (ValueError ''could not convert string to float'') | Some x \<Rightarrow> Inr x)"
| "py_float L (PInt i) = Inr (fl L (of_int i))"
| "py_float L v = (case num_of v of None \<Rightarrow> Inl TypeError | Some x \<Rightarrow> Inr x)"

text \<open>Evaluating a list of results in order: the first exception wins.\<close>

fun collect :: "('e + 'a) list \<Rightarrow> 'e + 'a list" where
  "collect [] = Inr []"
| "collect (r # rs) =
     (case r of
        Inl e \<Rightarrow> Inl e
      | Inr x \<Rightarrow> (case collect rs of Inl e \<Rightarrow> Inl e | Inr xs \<Rightarrow> Inr (x # xs)))"

text \<open>Sequencing of fallible steps: an exception ends the computation.\<close>

definition bind_r :: "'e + 'a \<Rightarrow> ('a \<Rightarrow> 'e + 'b) \<Rightarrow> 'e + 'b" where
  "bind_r r f = (case r of Inl e \<Rightarrow> Inl e | Inr x \<Rightarrow> f x)"

lemma bind_r_cong [fundef_cong]:
  "r = r' \<Longrightarrow> (\<And>x. r' = Inr x \<Longrightarrow> f x = f' x) \<Longrightarrow> bind_r r f = bind_r r' f'"
  by (auto simp: bind_r_def split: sum.splits)

section \<open>The expression evaluator of agentic-flow-builder\<close>

text \<open>
  \<open>ExpressionEvaluator\<close> of \<open>agentic-flow-builder/scripts/business_rules_engine.py\<close>. The
  \<open>details\<close> dictionary it fills is diagnostic only (it never changes the boolean returned
  or the exception raised) and is left out. The context is a dictionary.
\<close>

datatype pytype = TNone | TBool | TInt | TFloat | TStr | TList | TDict | TObject

fun type_of :: "pyval \<Rightarrow> pytype" where
  "type_of PNone = TNone"
| "type_of (PBool b) = TBool"
| "type_of (PInt i) = TInt"
| "type_of (PFloat x) = TFloat"
| "type_of (PStr s) = TStr"
| "type_of (PList xs) = TList"
| "type_of (PDict d) = TDict"
| "type_of (PObject s) = TObject"

text \<open>
  \<open>_get_field_value\<close> (lines 237-263): the loop over the parts of the path. A part with a
  bracket is unpacked into key and index (ValueError unless the split has two pieces), the
  index is read by \<open>int\<close>, and \<open>value[key][index]\<close> is taken with no guard.
\<close>

fun field_loop :: "pylib \<Rightarrow> string list \<Rightarrow> pyval \<Rightarrow> py_exn + pyval" where
  "field_loop L [] v = Inr v"
| "field_loop L (part # parts) v =
     (if CHR ''['' \<in> set part then
        (case split_on CHR ''['' part of
           [key, index] \<Rightarrow>
             (case py_int L (rstrip CHR '']'' index) of
                None \<Rightarrow> Inl (ValueError ''invalid literal for int()'')
              | Some i \<Rightarrow>
                  (case getitem_str v key of
                     Inl e \<Rightarrow> Inl e
                   | Inr v1 \<Rightarrow>
                       (case getitem_int v1 i of
                          Inl e \<Rightarrow> Inl e
                        | Inr v2 \<Rightarrow> if v2 = PNone then Inr PNone else field_loop L parts v2)))
         | _ \<Rightarrow> Inl (ValueError ''not enough or too many values to unpack''))
      else
        (case v of
           PDict d \<Rightarrow>
             (let v' = dict_get d part in if v' = PNone then Inr PNone else field_loop L parts v')
         | _ \<Rightarrow> Inr PNone))"

text \<open>The path is whatever the node holds under \<open>field\<close>; only a string has \<open>split\<close>.\<close>

fun afb_get_field_value :: "pylib \<Rightarrow> pyval \<Rightarrow> (string \<times> pyval) list \<Rightarrow> py_exn + pyval" where
  "afb_get_field_value L (PStr field_path) ctx =
     field_loop L (split_on CHR ''.'' field_path) (PDict ctx)"
| "afb_get_field_value L v ctx = Inl AttributeError"

text \<open>\<open>_coerce_types\<close> (lines 265-282); \<open>isinstance(x, int)\<close> holds for a \<open>bool\<close> too.\<close>

definition coerce_types :: "pylib \<Rightarrow> pyval \<Rightarrow> pyval \<Rightarrow> pyval \<times> pyval" where
  "coerce_types L actual expected =
     (if type_of actual = type_of expected then (actual, expected)
      else if type_of expected \<in> {TInt, TBool} \<and> type_of actual = TStr then
        (case actual of
           PStr s \<Rightarrow> (case py_int L s of None \<Rightarrow> (actual, expected) | Some i \<Rightarrow> (PInt i, expected))
         | _ \<Rightarrow> (actual, expected))
      else if type_of expected = TFloat \<and> type_of actual \<in> {TStr, TInt, TBool} then
        (case py_float L actual of
           Inl e \<Rightarrow> (actual, expected)
         | Inr x \<Rightarrow> (PFloat x, expected))
      else if type_of expected = TStr then (PStr (py_str L actual), expected)
      else (actual, expected))"

text \<open>The table \<open>COMPARISON_OPS\<close>: the operator functions by their symbol.\<close>

definition COMPARISON_OPS :: "(string \<times> (pyval \<Rightarrow> pyval \<Rightarrow> py_exn + bool)) list" where
  "COMPARISON_OPS =
     [(''=='', \<lambda>a b. Inr (py_eq a b)),
      (''!='', \<lambda>a b. Inr (\<not> py_eq a b)),
      (''<'', py_ord Lt),
      (''>'', py_ord Gt),
      (''<='', py_ord Le),
      (''>='', py_ord Ge)]"

text \<open>\<open>op in COMPARISON_OPS\<close>: a dictionary lookup, TypeError on an unhashable operator.\<close>

definition lookup_op :: "pyval \<Rightarrow> py_exn + (pyval \<Rightarrow> pyval \<Rightarrow> py_exn + bool) option" where
  "lookup_op opv =
     (if \<not> hashable opv then Inl TypeError
      else (case opv of PStr s \<Rightarrow> Inr (map_of COMPARISON_OPS s) | _ \<Rightarrow> Inr None))"

text \<open>\<open>_evaluate_comparison\<close> (lines 148-184).\<close>

definition evaluate_comparison :: "pylib \<Rightarrow> pyval \<Rightarrow> (string \<times> pyval) list \<Rightarrow> py_exn + bool" where
  "evaluate_comparison L node ctx =
     bind_r (getitem_str node ''field'') (\<lambda>field.
     bind_r (getitem_str node ''operator'') (\<lambda>opv.
     bind_r (getitem_str node ''value'') (\<lambda>expected_value.
     bind_r (afb_get_field_value L field ctx) (\<lambda>actual_value.
       if opv = PStr ''IS NULL'' then Inr (actual_value = PNone)
       else if opv = PStr ''IS NOT NULL'' then Inr (actual_value \<noteq> PNone)
       else
         bind_r (lookup_op opv) (\<lambda>found.
           case found of
             None \<Rightarrow> Inl (RuleEvaluationError ''Unknown operator'' None)
           | Some compare_fn \<Rightarrow>
               (case coerce_types L actual_value expected_value of
                  (a, e) \<Rightarrow>
                    (case compare_fn a e of
                       Inl ex \<Rightarrow> Inl (RuleEvaluationError ''Comparison failed'' (Some ex))
                     | Inr result \<Rightarrow> Inr result)))))))"

text \<open>\<open>node.get(k)\<close>: only a dictionary has \<open>get\<close>.\<close>

fun node_get :: "pyval \<Rightarrow> string \<Rightarrow> pyval \<Rightarrow> py_exn + pyval" where
  "node_get (PDict d) k dflt = Inr (case map_of d k of None \<Rightarrow> dflt | Some v \<Rightarrow> v)"
| "node_get v k dflt = Inl AttributeError"

text \<open>\<open>_evaluate_membership\<close> (lines 186-202).\<close>

definition evaluate_membership ::
  "pylib \<Rightarrow> pyval \<Rightarrow> (string \<times> pyval) list \<Rightarrow> bool \<Rightarrow> py_exn + bool" where
  "evaluate_membership L node ctx in_set =
     bind_r (node_get node ''IN'' PNone) (\<lambda>f_in.
     bind_r (if truthy f_in then Inr f_in else node_get node ''NOT IN'' PNone) (\<lambda>field.
     bind_r (node_get node ''values'' (PList [])) (\<lambda>vals.
     bind_r (afb_get_field_value L field ctx) (\<lambda>actual_value.
     bind_r (py_in actual_value vals) (\<lambda>result.
       Inr (if in_set then result else \<not> result))))))"

text \<open>\<open>re.match(pattern, s)\<close>: the pattern must be a string.\<close>

definition py_re_match :: "pylib \<Rightarrow> pyval \<Rightarrow> string \<Rightarrow> py_exn + bool" where
  "py_re_match L pattern s =
     (case pattern of
        PStr p \<Rightarrow> (case re_match L p s of None \<Rightarrow> Inl RegexError | Some b \<Rightarrow> Inr b)
      | _ \<Rightarrow> Inl TypeError)"

text \<open>\<open>_evaluate_pattern_match\<close> (lines 204-220).\<close>

definition evaluate_pattern_match :: "pylib \<Rightarrow> pyval \<Rightarrow> (string \<times> pyval) list \<Rightarrow> py_exn + bool" where
  "evaluate_pattern_match L node ctx =
     bind_r (getitem_str node ''MATCHES'') (\<lambda>m.
     bind_r (getitem_str m ''field'') (\<lambda>field.
     bind_r (getitem_str m ''pattern'') (\<lambda>pattern.
     bind_r (afb_get_field_value L field ctx) (\<lambda>v.
       case py_re_match L pattern (py_str L v) of
         Inl ex \<Rightarrow> Inl (RuleEvaluationError ''Pattern match failed'' (Some ex))
       | Inr result \<Rightarrow> Inr result))))"

text \<open>\<open>_evaluate_contains\<close> (lines 222-235).\<close>

definition evaluate_contains :: "pylib \<Rightarrow> pyval \<Rightarrow> (string \<times> pyval) list \<Rightarrow> py_exn + bool" where
  "evaluate_contains L node ctx =
     bind_r (getitem_str node ''CONTAINS'') (\<lambda>m.
     bind_r (getitem_str m ''field'') (\<lambda>field.
     bind_r (getitem_str m ''value'') (\<lambda>substring.
     bind_r (afb_get_field_value L field ctx) (\<lambda>v.
       py_in substring (PStr (py_str L v))))))"

text \<open>The leaves of \<open>_evaluate_node\<close> (lines 129-146), in the order of the source.\<close>

definition evaluate_leaf :: "pylib \<Rightarrow> pyval \<Rightarrow> (string \<times> pyval) list \<Rightarrow> py_exn + bool" where
  "evaluate_leaf L node ctx =
     bind_r (key_in ''field'' node) (\<lambda>has_field.
     bind_r (if has_field then key_in ''operator'' node else Inr False) (\<lambda>is_comparison.
       if is_comparison then evaluate_comparison L node ctx
       else
         bind_r (key_in ''IN'' node) (\<lambda>has_in.
           if has_in then evaluate_membership L node ctx True
           else
             bind_r (key_in ''NOT IN'' node) (\<lambda>has_not_in.
               if has_not_in then evaluate_membership L node ctx False
               else
                 bind_r (key_in ''MATCHES'' node) (\<lambda>has_matches.
                   if has_matches then evaluate_pattern_match L node ctx
                   else
                     bind_r (key_in ''CONTAINS'' node) (\<lambda>has_contains.
                       if has_contains then evaluate_contains L node ctx
                       else Inl (RuleEvaluationError ''Unknown expression node type'' None)))))))"

lemma size_dict_value:
  "(k, v) \<in> set d \<Longrightarrow> size v < Suc (size_list (size_prod (\<lambda>x. 0) size) d)"
  by (induction d) auto

lemma size_list_elem: "c \<in> set cs \<Longrightarrow> size c < Suc (size_list size cs)"
  by (induction cs) auto

lemma size_getitem_str: "getitem_str node k = Inr v \<Longrightarrow> size v < size node"
  by (cases node) (auto split: option.splits dest!: map_of_SomeD size_dict_value)

lemma size_iter_child:
  assumes "getitem_str node k = Inr v" and "py_iter v = Inr cs" and "c \<in> set cs"
  shows "size c < size node"
proof -
  have lt: "size v < size node" using assms(1) by (rule size_getitem_str)
  show ?thesis
  proof (cases v)
    case (PList xs)
    with assms(2,3) have "size c < Suc (size_list size xs)" by (auto dest: size_list_elem)
    with PList lt show ?thesis by simp
  next
    case (PDict d)
    with assms(2,3) have "size c = 0" by auto
    with lt show ?thesis by simp
  next
    case (PStr s)
    with assms(2,3) have "size c = 0" by auto
    with lt show ?thesis by simp
  qed (use assms(2) in auto)
qed

text \<open>
  \<open>_evaluate_node\<close> (lines 114-146). The list comprehensions of AND and OR evaluate every
  child, in order, before \<open>all\<close> or \<open>any\<close> looks at the results.
\<close>

function evaluate_node :: "pylib \<Rightarrow> pyval \<Rightarrow> (string \<times> pyval) list \<Rightarrow> py_exn + bool" where
  "evaluate_node L node ctx =
     (case key_in ''AND'' node of
        Inl e \<Rightarrow> Inl e
      | Inr has_and \<Rightarrow>
          if has_and then
            (case getitem_str node ''AND'' of
               Inl e \<Rightarrow> Inl e
             | Inr v \<Rightarrow>
                 (case py_iter v of
                    Inl e \<Rightarrow> Inl e
                  | Inr children \<Rightarrow>
                      (case collect (map (\<lambda>child. evaluate_node L child ctx) children) of
                         Inl e \<Rightarrow> Inl e
                       | Inr results \<Rightarrow> Inr (list_all (\<lambda>r. r) results))))
          else
            (case key_in ''OR'' node of
               Inl e \<Rightarrow> Inl e
             | Inr has_or \<Rightarrow>
                 if has_or then
                   (case getitem_str node ''OR'' of
                      Inl e \<Rightarrow> Inl e
                    | Inr v \<Rightarrow>
                        (case py_iter v of
                           Inl e \<Rightarrow> Inl e
                         | Inr children \<Rightarrow>
                             (case collect (map (\<lambda>child. evaluate_node L child ctx) children) of
                                Inl e \<Rightarrow> Inl e
                              | Inr results \<Rightarrow> Inr (list_ex (\<lambda>r. r) results))))
                 else
                   (case key_in ''NOT'' node of
                      Inl e \<Rightarrow> Inl e
                    | Inr has_not \<Rightarrow>
                        if has_not then
                          (case getitem_str node ''NOT'' of
                             Inl e \<Rightarrow> Inl e
                           | Inr v \<Rightarrow>
                               (case evaluate_node L v ctx of
                                  Inl e \<Rightarrow> Inl e
                                | Inr r \<Rightarrow> Inr (\<not> r)))
                        else evaluate_leaf L node ctx)))"
  by pat_completeness auto
termination
  by (relation "measure (\<lambda>(L, node, ctx). size node)")
     (auto intro: size_iter_child size_getitem_str)

declare evaluate_node.simps [simp del]

text \<open>
  \<open>evaluate\<close> (lines 79-112): every exception of the walk is raised again as a
  \<open>RuleEvaluationError\<close>.
\<close>

definition evaluate :: "pylib \<Rightarrow> pyval \<Rightarrow> (string \<times> pyval) list \<Rightarrow> py_exn + bool" where
  "evaluate L expression ctx =
     (case evaluate_node L expression ctx of
        Inl e \<Rightarrow> Inl (RuleEvaluationError ''Expression evaluation failed'' (Some e))
      | Inr result \<Rightarrow> Inr result)"

subsection \<open>The syntax validator\<close>

definition is_null_op :: "pyval \<Rightarrow> bool" where
  "is_null_op opv = (opv = PStr ''IS NULL'' \<or> opv = PStr ''IS NOT NULL'')"

text \<open>The comparison branch of \<open>_validate_node\<close> (lines 553-561), on a dictionary.\<close>

definition validate_comparison :: "(string \<times> pyval) list \<Rightarrow> py_exn + unit" where
  "validate_comparison d =
     (case map_of d ''operator'' of
        None \<Rightarrow> Inl (ValueError ''Comparison expression requires operator'')
      | Some opv \<Rightarrow>
          bind_r (lookup_op opv) (\<lambda>found.
            if found = None \<and> \<not> is_null_op opv then Inl (ValueError ''Unknown operator'')
            else if \<not> is_null_op opv \<and> map_of d ''value'' = None then
              Inl (ValueError ''Comparison expression requires value'')
            else Inr ()))"

text \<open>\<open>_validate_node\<close> (lines 528-567).\<close>

function validate_node :: "pyval \<Rightarrow> py_exn + unit" where
  "validate_node node =
     (case node of
        PDict d \<Rightarrow>
          (case map_of d ''AND'' of
             Some v \<Rightarrow>
               (case v of
                  PList children \<Rightarrow>
                    (case collect (map validate_node children) of
                       Inl e \<Rightarrow> Inl e
                     | Inr done \<Rightarrow> Inr ())
                | _ \<Rightarrow> Inl (ValueError ''AND operator requires a list of conditions''))
           | None \<Rightarrow>
               (case map_of d ''OR'' of
                  Some v \<Rightarrow>
                    (case v of
                       PList children \<Rightarrow>
                         (case collect (map validate_node children) of
                            Inl e \<Rightarrow> Inl e
                          | Inr done \<Rightarrow> Inr ())
                     | _ \<Rightarrow> Inl (ValueError ''OR operator requires a list of conditions''))
                | None \<Rightarrow>
                    (case map_of d ''NOT'' of
                       Some v \<Rightarrow> validate_node v
                     | None \<Rightarrow>
                         if ''field'' \<in> set (map fst d) then validate_comparison d
                         else if list_ex (\<lambda>k. k \<in> set (map fst d)) [''IN'', ''NOT IN'', ''MATCHES'', ''CONTAINS'']
                           then Inr ()
                         else Inl (ValueError ''Invalid expression node structure''))))
      | _ \<Rightarrow> Inl (ValueError ''Expression node must be a dictionary''))"
  by pat_completeness auto
termination
proof (relation "measure size")
  show "wf (measure size)" by simp
next
  fix node :: pyval and d v children c
  assume "node = PDict d" "map_of d ''AND'' = Some v" "v = PList children" "c \<in> set children"
  then have "getitem_str node ''AND'' = Inr v" "py_iter v = Inr children" by simp_all
  from size_iter_child [OF this \<open>c \<in> set children\<close>] show "(c, node) \<in> measure size" by simp
next
  fix node :: pyval and d v children c
  assume "node = PDict d" "map_of d ''AND'' = None" "map_of d ''OR'' = Some v"
    "v = PList children" "c \<in> set children"
  then have "getitem_str node ''OR'' = Inr v" "py_iter v = Inr children" by simp_all
  from size_iter_child [OF this \<open>c \<in> set children\<close>] show "(c, node) \<in> measure size" by simp
next
  fix node :: pyval and d v
  assume "node = PDict d" "map_of d ''AND'' = None" "map_of d ''OR'' = None"
    "map_of d ''NOT'' = Some v"
  then have "getitem_str node ''NOT'' = Inr v" by simp
  from size_getitem_str [OF this] show "(v, node) \<in> measure size" by simp
qed

declare validate_node.simps [simp del]

text \<open>
  \<open>validate_rule_syntax\<close> (lines 514-526): valid with no message, or invalid with the
  exception whose text is the message.
\<close>

definition validate_rule_syntax :: "pyval \<Rightarrow> bool \<times> py_exn option" where
  "validate_rule_syntax condition =
     (case validate_node condition of
        Inr done \<Rightarrow> (True, None)
      | Inl e \<Rightarrow> (False, Some e))"

section \<open>The business rules engine of prd-quality-gate-flow\<close>

text \<open>
  \<open>BusinessRulesEngine\<close> of \<open>prd-quality-gate-flow/business_rules_engine.py\<close>.
\<close>

subsection \<open>Field resolution and conditions\<close>

text \<open>
  The loop of \<open>_get_field_value\<close> (lines 321-331): a dictionary is read by \<open>get\<close>, any
  other value by \<open>getattr(value, part, None)\<close>.
\<close>

fun navigate :: "pylib \<Rightarrow> string list \<Rightarrow> pyval \<Rightarrow> pyval" where
  "navigate L [] v = v"
| "navigate L (part # parts) v =
     (if v = PNone then PNone
      else navigate L parts (case v of PDict d \<Rightarrow> dict_get d part | _ \<Rightarrow> getattr_of L v part))"

text \<open>\<open>len(v)\<close> where \<open>hasattr(v, '__len__')\<close>: strings, lists and dictionaries.\<close>

fun py_len :: "pyval \<Rightarrow> nat option" where
  "py_len (PStr s) = Some (length s)"
| "py_len (PList xs) = Some (length xs)"
| "py_len (PDict d) = Some (length d)"
| "py_len v = None"

lemma startswith_length: "startswith s p \<Longrightarrow> length p \<le> length s"
  by (induction s p rule: startswith.induct) auto

lemma endswith_length: "endswith s suffix \<Longrightarrow> length suffix \<le> length s"
  using startswith_length [of "rev s" "rev suffix"] by (simp add: endswith_def)

text \<open>\<open>_get_field_value\<close> (lines 303-331) on a string path, with its \<open>.length\<close> accessor.\<close>

function field_value_str :: "pylib \<Rightarrow> string \<Rightarrow> (string \<times> pyval) list \<Rightarrow> pyval" where
  "field_value_str L field_path ctx =
     (if endswith field_path ''.length'' then
        (let v = field_value_str L (take (length field_path - 7) field_path) ctx
         in PInt (case py_len v of None \<Rightarrow> 0 | Some n \<Rightarrow> int n))
      else navigate L (split_on CHR ''.'' field_path) (PDict ctx))"
  by pat_completeness auto
termination
  by (relation "measure (\<lambda>(L, p, ctx). length p)") (auto dest: endswith_length)

declare field_value_str.simps [simp del]

text \<open>A path that is not a string has no \<open>endswith\<close>.\<close>

fun prd_get_field_value :: "pylib \<Rightarrow> pyval \<Rightarrow> (string \<times> pyval) list \<Rightarrow> py_exn + pyval" where
  "prd_get_field_value L (PStr field_path) ctx = Inr (field_value_str L field_path ctx)"
| "prd_get_field_value L v ctx = Inl AttributeError"

text \<open>\<open>float(actual) OP float(expected)\<close>: the left conversion first.\<close>

definition float_compare :: "pylib \<Rightarrow> ordop \<Rightarrow> pyval \<Rightarrow> pyval \<Rightarrow> py_exn + bool" where
  "float_compare L opr actual expected =
     bind_r (py_float L actual) (\<lambda>a.
     bind_r (py_float L expected) (\<lambda>e. Inr (ord_holds opr a e)))"

text \<open>\<open>_compare_values\<close> (lines 333-372).\<close>

definition compare_values :: "pylib \<Rightarrow> pyval \<Rightarrow> pyval \<Rightarrow> pyval \<Rightarrow> py_exn + bool" where
  "compare_values L actual opv expected =
     (if opv = PStr ''IS NULL'' then Inr (actual = PNone)
      else if opv = PStr ''IS NOT NULL'' then Inr (actual \<noteq> PNone)
      else if actual = PNone then Inr False
      else if opv = PStr ''=='' then Inr (py_eq actual expected)
      else if opv = PStr ''!='' then Inr (\<not> py_eq actual expected)
      else if opv = PStr ''>'' then float_compare L Gt actual expected
      else if opv = PStr ''<'' then float_compare L Lt actual expected
      else if opv = PStr ''>='' then float_compare L Ge actual expected
      else if opv = PStr ''<='' then float_compare L Le actual expected
      else if opv = PStr ''IN'' then py_in actual expected
      else if opv = PStr ''NOT IN'' then bind_r (py_in actual expected) (\<lambda>r. Inr (\<not> r))
      else Inl (ValueError ''Unknown operator''))"

text \<open>
  \<open>all(...)\<close> and \<open>any(...)\<close> over a generator: the children are evaluated one at a time
  and the scan stops at the first that decides the result, or raises.
\<close>

fun all_lazy :: "('e + bool) list \<Rightarrow> 'e + bool" where
  "all_lazy [] = Inr True"
| "all_lazy (r # rs) = (case r of Inl e \<Rightarrow> Inl e | Inr b \<Rightarrow> if b then all_lazy rs else Inr False)"

fun any_lazy :: "('e + bool) list \<Rightarrow> 'e + bool" where
  "any_lazy [] = Inr False"
| "any_lazy (r # rs) = (case r of Inl e \<Rightarrow> Inl e | Inr b \<Rightarrow> if b then Inr True else any_lazy rs)"

text \<open>The MATCHES branch of \<open>_evaluate_condition\<close> (lines 280-288).\<close>

definition condition_matches :: "pylib \<Rightarrow> pyval \<Rightarrow> (string \<times> pyval) list \<Rightarrow> py_exn + bool" where
  "condition_matches L condition ctx =
     bind_r (getitem_str condition ''MATCHES'') (\<lambda>m.
     bind_r (getitem_str m ''field'') (\<lambda>field.
     bind_r (getitem_str m ''pattern'') (\<lambda>pattern.
     bind_r (prd_get_field_value L field ctx) (\<lambda>v.
       if v = PNone then Inr False else py_re_match L pattern (py_str L v)))))"

text \<open>The comparison branch and the final \<open>raise\<close> (lines 290-301).\<close>

definition condition_leaf :: "pylib \<Rightarrow> pyval \<Rightarrow> (string \<times> pyval) list \<Rightarrow> py_exn + bool" where
  "condition_leaf L condition ctx =
     bind_r (key_in ''MATCHES'' condition) (\<lambda>has_matches.
       if has_matches then condition_matches L condition ctx
       else
         bind_r (key_in ''field'' condition) (\<lambda>has_field.
         bind_r (if has_field then key_in ''operator'' condition else Inr False) (\<lambda>is_comparison.
           if is_comparison then
             bind_r (getitem_str condition ''field'') (\<lambda>field.
             bind_r (getitem_str condition ''operator'') (\<lambda>opv.
             bind_r (node_get condition ''value'' PNone) (\<lambda>expected_value.
             bind_r (prd_get_field_value L field ctx) (\<lambda>actual_value.
               compare_values L actual_value opv expected_value))))
           else Inl (ValueError ''Invalid condition format''))))"

text \<open>\<open>_evaluate_condition\<close> (lines 258-301).\<close>

function evaluate_condition :: "pylib \<Rightarrow> pyval \<Rightarrow> (string \<times> pyval) list \<Rightarrow> py_exn + bool" where
  "evaluate_condition L condition ctx =
     (case key_in ''AND'' condition of
        Inl e \<Rightarrow> Inl e
      | Inr has_and \<Rightarrow>
          if has_and then
            (case getitem_str condition ''AND'' of
               Inl e \<Rightarrow> Inl e
             | Inr v \<Rightarrow>
                 (case py_iter v of
                    Inl e \<Rightarrow> Inl e
                  | Inr children \<Rightarrow> all_lazy (map (\<lambda>c. evaluate_condition L c ctx) children)))
          else
            (case key_in ''OR'' condition of
               Inl e \<Rightarrow> Inl e
             | Inr has_or \<Rightarrow>
                 if has_or then
                   (case getitem_str condition ''OR'' of
                      Inl e \<Rightarrow> Inl e
                    | Inr v \<Rightarrow>
                        (case py_iter v of
                           Inl e \<Rightarrow> Inl e
                         | Inr children \<Rightarrow> any_lazy (map (\<lambda>c. evaluate_condition L c ctx) children)))
                 else
                   (case key_in ''NOT'' condition of
                      Inl e \<Rightarrow> Inl e
                    | Inr has_not \<Rightarrow>
                        if has_not then
                          (case getitem_str condition ''NOT'' of
                             Inl e \<Rightarrow> Inl e
                           | Inr v \<Rightarrow>
                               (case evaluate_condition L v ctx of
                                  Inl e \<Rightarrow> Inl e
                                | Inr r \<Rightarrow> Inr (\<not> r)))
                        else condition_leaf L condition ctx)))"
  by pat_completeness auto
termination
  by (relation "measure (\<lambda>(L, condition, ctx). size condition)")
     (auto intro: size_iter_child size_getitem_str)

declare evaluate_condition.simps [simp del]

subsection \<open>Rules and their evaluation\<close>

text \<open>
  \<open>_extract_field_paths\<close> (lines 386-407): unlike the evaluation, it visits every branch
  that is present, and every child of AND and OR.
\<close>

function extract_field_paths :: "pyval \<Rightarrow> py_exn + pyval list" where
  "extract_field_paths condition =
     bind_r (key_in ''field'' condition) (\<lambda>has_field.
     bind_r (if has_field then bind_r (getitem_str condition ''field'') (\<lambda>f. Inr [f]) else Inr []) (\<lambda>fs1.
     bind_r (key_in ''AND'' condition) (\<lambda>has_and.
     bind_r (if has_and then
               bind_r (getitem_str condition ''AND'') (\<lambda>v.
               bind_r (py_iter v) (\<lambda>children.
               bind_r (collect (map extract_field_paths children)) (\<lambda>fss. Inr (concat fss))))
             else Inr []) (\<lambda>fs2.
     bind_r (key_in ''OR'' condition) (\<lambda>has_or.
     bind_r (if has_or then
               bind_r (getitem_str condition ''OR'') (\<lambda>v.
               bind_r (py_iter v) (\<lambda>children.
               bind_r (collect (map extract_field_paths children)) (\<lambda>fss. Inr (concat fss))))
             else Inr []) (\<lambda>fs3.
     bind_r (key_in ''NOT'' condition) (\<lambda>has_not.
     bind_r (if has_not then
               bind_r (getitem_str condition ''NOT'') (\<lambda>v. extract_field_paths v)
             else Inr []) (\<lambda>fs4.
     bind_r (key_in ''MATCHES'' condition) (\<lambda>has_matches.
     bind_r (if has_matches then
               bind_r (getitem_str condition ''MATCHES'') (\<lambda>m.
               bind_r (key_in ''field'' m) (\<lambda>m_has_field.
                 if m_has_field then bind_r (getitem_str m ''field'') (\<lambda>f. Inr [f]) else Inr []))
             else Inr []) (\<lambda>fs5.
       Inr (fs1 @ fs2 @ fs3 @ fs4 @ fs5)))))))))))"
  by pat_completeness auto
termination
  by (relation "measure size") (auto intro: size_iter_child size_getitem_str)

declare extract_field_paths.simps [simp del]

text \<open>\<open>d[k] = v\<close> on a dictionary, and the dictionary a comprehension builds.\<close>

definition dict_set :: "(string \<times> 'v) list \<Rightarrow> string \<Rightarrow> 'v \<Rightarrow> (string \<times> 'v) list" where
  "dict_set d k v =
     (if k \<in> set (map fst d) then map (\<lambda>kv. if fst kv = k then (k, v) else kv) d
      else d @ [(k, v)])"

definition dict_of_items :: "(string \<times> 'v) list \<Rightarrow> (string \<times> 'v) list" where
  "dict_of_items kvs = fold (\<lambda>kv d. dict_set d (fst kv) (snd kv)) kvs []"

text \<open>\<open>_extract_relevant_context\<close> (lines 374-384).\<close>

definition extract_relevant_context ::
  "pylib \<Rightarrow> pyval \<Rightarrow> (string \<times> pyval) list \<Rightarrow> py_exn + (string \<times> pyval) list" where
  "extract_relevant_context L condition ctx =
     bind_r (extract_field_paths condition) (\<lambda>fields.
     bind_r (collect (map (\<lambda>field.
               bind_r (prd_get_field_value L field ctx) (\<lambda>v.
                 Inr (case field of PStr s \<Rightarrow> s | _ \<Rightarrow> [], v))) fields)) (\<lambda>kvs.
       Inr (dict_of_items kvs)))"

subsection \<open>Numbers\<close>

text \<open>
  A number of a JSON document is an \<open>int\<close> or a \<open>float\<close>. Integers are added and
  multiplied exactly. When one operand is a float the other is converted to a float and
  the result is the nearest double, \<open>fl\<close> of the exact result; \<open>a / b\<close> is always a float,
  for two integers the nearest double of the exact quotient. Comparisons are exact.
\<close>

datatype pynum = NInt int | NFloat rat

fun num_val :: "pynum \<Rightarrow> rat" where
  "num_val (NInt i) = of_int i"
| "num_val (NFloat x) = x"

fun num_pyval :: "pynum \<Rightarrow> pyval" where
  "num_pyval (NInt i) = PInt i"
| "num_pyval (NFloat x) = PFloat x"

fun to_float :: "pylib \<Rightarrow> pynum \<Rightarrow> rat" where
  "to_float L (NInt i) = fl L (of_int i)"
| "to_float L (NFloat x) = x"

fun num_add :: "pylib \<Rightarrow> pynum \<Rightarrow> pynum \<Rightarrow> pynum" where
  "num_add L (NInt i) (NInt j) = NInt (i + j)"
| "num_add L a b = NFloat (fl L (to_float L a + to_float L b))"

fun num_mul :: "pylib \<Rightarrow> pynum \<Rightarrow> pynum \<Rightarrow> pynum" where
  "num_mul L (NInt i) (NInt j) = NInt (i * j)"
| "num_mul L a b = NFloat (fl L (to_float L a * to_float L b))"

fun true_div :: "pylib \<Rightarrow> pynum \<Rightarrow> pynum \<Rightarrow> rat" where
  "true_div L (NInt i) (NInt j) = fl L (of_int i / of_int j)"
| "true_div L a b = fl L (to_float L a / to_float L b)"

text \<open>
  A row of \<open>business_rules\<close>, with its condition and metadata already parsed. The metadata
  is read by its four keys: \<open>weight\<close> (a number, 10 when absent) and three flags (false
  when absent).
\<close>

record rule_metadata =
  weight :: "pynum option"
  critical :: bool
  auto_kill_if_fail :: bool
  requires_human_if_fail :: bool

record business_rule =
  br_rule_id :: string
  br_gate_node_id :: "string option"
  br_name :: string
  br_condition :: pyval
  br_priority :: int
  br_enabled :: bool
  br_metadata :: rule_metadata

text \<open>\<open>RuleEvaluationResult\<close> (lines 16-24).\<close>

record rule_evaluation_result =
  rule_id :: string
  rule_name :: string
  passed :: bool
  score :: rat
  reason :: string
  evaluation_details :: pyval

text \<open>
  \<open>evaluate_rule\<close> (lines 210-256). The \<open>try\<close> covers the evaluation of the condition and
  the snapshot of the fields it names: an exception of either gives the error result.
\<close>

definition prd_evaluate_rule ::
  "pylib \<Rightarrow> business_rule \<Rightarrow> (string \<times> pyval) list \<Rightarrow> rule_evaluation_result" where
  "prd_evaluate_rule L rule ctx =
     (case bind_r (evaluate_condition L (br_condition rule) ctx) (\<lambda>p.
             bind_r (extract_relevant_context L (br_condition rule) ctx) (\<lambda>snapshot.
               Inr (p, snapshot))) of
        Inr (p, snapshot) \<Rightarrow>
          \<lparr>rule_id = br_rule_id rule,
           rule_name = br_name rule,
           passed = p,
           score = (if p then 100 else 0),
           reason = (if p then ''Condition satisfied'' else ''Condition not met''),
           evaluation_details =
             PDict [(''condition'', br_condition rule), (''context_snapshot'', PDict snapshot)]\<rparr>
      | Inl e \<Rightarrow>
          \<lparr>rule_id = br_rule_id rule,
           rule_name = br_name rule,
           passed = False,
           score = 0,
           reason = ''Evaluation error: '' @ exn_text L e,
           evaluation_details =
             PDict [(''error'', PStr (exn_text L e)), (''condition'', br_condition rule)]\<rparr>)"

subsection \<open>The database\<close>

text \<open>
  The tables of the SQLite connection that the engine and the orchestrator of
  prd-quality-gate-flow share, as lists of rows in insertion order. A node's \<open>config\<close>
  column is parsed JSON, read by the keys the code reads, each absent or present. Keys
  made from the clock (\<open>eval_id\<close>, \<open>log_id\<close>, \<open>node_exec_id\<close>) and timestamps are left
  out; a row of \<open>node_executions\<close> is named by its position in the table.
\<close>

record node_config =
  gate_number :: "pyval option"
  gate_type :: "string option"
  pass_threshold :: "pynum option"
  decision_options :: "string list option"
  recycle_target :: "string option"
  pattern :: "string option"
  agent_type :: "string option"
  working_memory_input :: "string list option"
  working_memory_output :: "string list option"

record node_row =
  node_id :: string
  parent_id :: "string option"
  node_type :: string
  node_name :: string
  node_description :: string
  config :: "node_config option"

record gate_evaluation_row =
  ge_execution_id :: string
  ge_gate_node_id :: string
  ge_rule_id :: string
  ge_status :: string
  ge_evaluation_result :: bool
  ge_score :: rat
  ge_reason :: string
  ge_context_snapshot :: pyval

record audit_row =
  al_execution_id :: string
  al_event_type :: string
  al_event_data :: pyval
  al_actor :: string

record node_execution_row =
  ne_execution_id :: string
  ne_node_id :: string
  ne_status :: string
  ne_output_data :: "pyval option"

record db =
  nodes :: "node_row list"
  business_rules :: "business_rule list"
  gate_evaluations :: "gate_evaluation_row list"
  audit_log :: "audit_row list"
  node_executions :: "node_execution_row list"
  working_memory :: "(string \<times> string \<times> pyval) list"

text \<open>\<open>SELECT * FROM nodes WHERE node_id = ?\<close>, first row.\<close>

definition fetch_node :: "db \<Rightarrow> string \<Rightarrow> node_row option" where
  "fetch_node d nid = find (\<lambda>n. node_id n = nid) (nodes d)"

text \<open>
  The enabled rules of a gate, \<open>ORDER BY priority DESC\<close> (lines 87-91); rules of equal
  priority stay in table order.
\<close>

definition fetch_rules :: "db \<Rightarrow> string \<Rightarrow> business_rule list" where
  "fetch_rules d gid =
     sort_key (\<lambda>r. - br_priority r)
       (filter (\<lambda>r. br_gate_node_id r = Some gid \<and> br_enabled r) (business_rules d))"

subsection \<open>Gate evaluation\<close>

text \<open>\<open>GateEvaluationResult\<close> (lines 27-37).\<close>

record gate_evaluation_result =
  gate_id :: string
  gate_name :: string
  decision :: string
  overall_score :: rat
  gate_passed :: bool
  rule_results :: "rule_evaluation_result list"
  gate_reason :: string
  recommendations :: "string list"

text \<open>The variables of the loop over the rules (lines 107-111).\<close>

record gate_acc =
  acc_rule_results :: "rule_evaluation_result list"
  acc_total_weight :: pynum
  acc_weighted_score :: pynum
  acc_critical_failures :: "string list"
  acc_recommendations :: "string list"

definition gate_acc_init :: gate_acc where
  "gate_acc_init =
     \<lparr>acc_rule_results = [], acc_total_weight = NInt 0, acc_weighted_score = NInt 0,
      acc_critical_failures = [], acc_recommendations = []\<rparr>"

definition rule_weight :: "business_rule \<Rightarrow> pynum" where
  "rule_weight rule = (case weight (br_metadata rule) of None \<Rightarrow> NInt 10 | Some w \<Rightarrow> w)"

text \<open>
  The loop of \<open>evaluate_gate\<close> (lines 113-146): \<open>Inl\<close> is the \<open>return\<close> inside the loop,
  \<open>Inr\<close> the variables after the last rule. The score of a rule is a float, so
  \<open>weight * result.score\<close> is one, and \<open>weighted_score\<close> from the first rule that passes.
\<close>

fun rules_loop ::
  "pylib \<Rightarrow> string \<Rightarrow> string \<Rightarrow> (string \<times> pyval) list \<Rightarrow> business_rule list \<Rightarrow> gate_acc
     \<Rightarrow> gate_evaluation_result + gate_acc" where
  "rules_loop L gid gname ctx [] acc = Inr acc"
| "rules_loop L gid gname ctx (rule # rules) acc =
     (let result = prd_evaluate_rule L rule ctx;
          results = acc_rule_results acc @ [result];
          total = num_add L (acc_total_weight acc) (rule_weight rule)
      in
        if passed result then
          rules_loop L gid gname ctx rules
            (acc\<lparr>acc_rule_results := results,
                 acc_total_weight := total,
                 acc_weighted_score :=
                   num_add L (acc_weighted_score acc)
                     (num_mul L (rule_weight rule) (NFloat (score result)))\<rparr>)
        else
          (let failures =
                 (if critical (br_metadata rule) then acc_critical_failures acc @ [rule_name result]
                  else acc_critical_failures acc)
           in
             if auto_kill_if_fail (br_metadata rule) then
               Inl \<lparr>gate_id = gid,
                    gate_name = gname,
                    decision = ''KILL'',
                    overall_score = 0,
                    gate_passed = False,
                    rule_results = results,
                    gate_reason = ''Critical failure: '' @ rule_name result,
                    recommendations = [''Fix: '' @ reason result]\<rparr>
             else
               rules_loop L gid gname ctx rules
                 (acc\<lparr>acc_rule_results := results,
                      acc_total_weight := total,
                      acc_critical_failures := failures,
                      acc_recommendations :=
                        (if requires_human_if_fail (br_metadata rule) then
                           acc_recommendations acc
                             @ [''Human review required for: '' @ rule_name result]
                         else acc_recommendations acc)\<rparr>)))"

text \<open>\<open>', '.join(xs)\<close>.\<close>

fun join_comma :: "string list \<Rightarrow> string" where
  "join_comma [] = []"
| "join_comma [x] = x"
| "join_comma (x # y # ys) = x @ '', '' @ join_comma (y # ys)"

text \<open>The three settings of the gate, with their defaults (lines 152-154).\<close>

definition cfg_gate_type :: "node_config \<Rightarrow> string" where
  "cfg_gate_type cfg = (case gate_type cfg of None \<Rightarrow> ''automated'' | Some t \<Rightarrow> t)"

definition cfg_pass_threshold :: "node_config \<Rightarrow> pynum" where
  "cfg_pass_threshold cfg = (case pass_threshold cfg of None \<Rightarrow> NInt 80 | Some t \<Rightarrow> t)"

definition cfg_decision_options :: "node_config \<Rightarrow> string list" where
  "cfg_decision_options cfg =
     (case decision_options cfg of None \<Rightarrow> [''GO'', ''RECYCLE''] | Some os \<Rightarrow> os)"

text \<open>
  The decision of \<open>evaluate_gate\<close> from the score (lines 156-185): decision, passed and
  reason. The literal \<open>0.7\<close> is the double nearest to 7/10, and \<open>pass_threshold * 0.7\<close> a
  product of floats; the score is compared with it, and with the threshold, exactly.
\<close>

definition decide ::
  "pylib \<Rightarrow> node_config \<Rightarrow> string list \<Rightarrow> string list \<Rightarrow> rat \<Rightarrow> string \<times> bool \<times> string" where
  "decide L cfg failures recs overall =
     (let gtype = cfg_gate_type cfg;
          threshold = cfg_pass_threshold cfg;
          options = cfg_decision_options cfg
      in
        if gtype = ''human'' then (''PENDING_HUMAN_REVIEW'', False, ''Human review required'')
        else if failures \<noteq> [] then
          (if ''RECYCLE'' \<in> set options then ''RECYCLE'' else ''HOLD'', False,
           ''Critical failures: '' @ join_comma failures)
        else if overall \<ge> num_val threshold then
          (if ''GO'' \<in> set options then ''GO'' else ''PASS'', True,
           ''All checks passed (score: '' @ format_num L ''.1f'' overall @ '')'')
        else if overall \<ge> num_val (num_mul L threshold (NFloat (fl L (7 / 10)))) then
          (if recs \<noteq> [] then
             (''PENDING_HUMAN_REVIEW'', False,
              ''Marginal score ('' @ format_num L ''.1f'' overall @ ''), human review recommended'')
           else
             (if ''RECYCLE'' \<in> set options then ''RECYCLE'' else ''HOLD'', False,
              ''Score below threshold ('' @ format_num L ''.1f'' overall @ '' < ''
                @ py_str L (num_pyval threshold) @ '')''))
        else
          (if ''KILL'' \<in> set options then ''KILL'' else ''REJECT'', False,
           ''Insufficient score ('' @ format_num L ''.1f'' overall @ '')''))"

text \<open>\<open>json.dumps(v)\<close> raises TypeError on a value that holds a Python object.\<close>

fun json_ok :: "pyval \<Rightarrow> bool" where
  "json_ok (PObject s) = False"
| "json_ok (PList xs) = list_all json_ok xs"
| "json_ok (PDict d) = list_all (\<lambda>kv. json_ok (snd kv)) d"
| "json_ok v = True"

text \<open>
  The loop of \<open>_log_gate_evaluation\<close> (lines 424-443): one row of \<open>gate_evaluations\<close> for
  each rule result. \<open>json.dumps\<close> of the details is evaluated before the INSERT.
\<close>

definition evaluation_row ::
  "string \<Rightarrow> string \<Rightarrow> string \<Rightarrow> rule_evaluation_result \<Rightarrow> gate_evaluation_row" where
  "evaluation_row eid gid dec r =
     \<lparr>ge_execution_id = eid, ge_gate_node_id = gid, ge_rule_id = rule_id r,
      ge_status = dec, ge_evaluation_result = passed r, ge_score = score r,
      ge_reason = reason r, ge_context_snapshot = evaluation_details r\<rparr>"

fun log_rule_results ::
  "string \<Rightarrow> string \<Rightarrow> string \<Rightarrow> rule_evaluation_result list \<Rightarrow> db \<Rightarrow> py_exn option \<times> db" where
  "log_rule_results eid gid dec [] d = (None, d)"
| "log_rule_results eid gid dec (r # rs) d =
     (if \<not> json_ok (evaluation_details r) then (Some TypeError, d)
      else
        log_rule_results eid gid dec rs
          (d\<lparr>gate_evaluations := gate_evaluations d @ [evaluation_row eid gid dec r]\<rparr>))"

text \<open>The row of \<open>audit_log\<close> for the decision of the gate (lines 445-464).\<close>

definition gate_audit_row ::
  "string \<Rightarrow> string \<Rightarrow> rule_evaluation_result list \<Rightarrow> string \<Rightarrow> rat \<Rightarrow> string \<Rightarrow> audit_row" where
  "gate_audit_row eid gid results dec sc rsn =
     \<lparr>al_execution_id = eid,
      al_event_type = ''gate_evaluation'',
      al_event_data =
        PDict [(''gate_id'', PStr gid), (''decision'', PStr dec), (''score'', PFloat sc),
               (''reason'', PStr rsn),
               (''rules_evaluated'', PInt (int (length results))),
               (''rules_passed'', PInt (int (length (filter passed results))))],
      al_actor = ''BRE''\<rparr>"

text \<open>\<open>_log_gate_evaluation\<close> (lines 409-466); the engine has its connection.\<close>

definition log_gate_evaluation ::
  "string \<Rightarrow> string \<Rightarrow> rule_evaluation_result list \<Rightarrow> string \<Rightarrow> rat \<Rightarrow> string \<Rightarrow> db
     \<Rightarrow> py_exn option \<times> db" where
  "log_gate_evaluation eid gid results dec sc rsn d =
     (case log_rule_results eid gid dec results d of
        (Some e, d') \<Rightarrow> (Some e, d')
      | (None, d') \<Rightarrow>
          (None, d'\<lparr>audit_log := audit_log d' @ [gate_audit_row eid gid results dec sc rsn]\<rparr>))"

text \<open>
  The end of \<open>evaluate_gate\<close>, after the loop (lines 148-208): the overall score, the
  decision, the log when an execution id was given (\<open>if execution_id\<close> holds for a string
  that is not empty), and the result.
\<close>

definition gate_verdict ::
  "pylib \<Rightarrow> string \<Rightarrow> string \<Rightarrow> node_config \<Rightarrow> gate_acc \<Rightarrow> string option \<Rightarrow> db
     \<Rightarrow> (py_exn + gate_evaluation_result) \<times> db" where
  "gate_verdict L gid gname gate_config acc execution_id d =
     (let overall =
            (if num_val (acc_total_weight acc) > 0
             then true_div L (acc_weighted_score acc) (acc_total_weight acc) else 0)
      in
        case decide L gate_config (acc_critical_failures acc) (acc_recommendations acc) overall of
          (dec, ok, rsn) \<Rightarrow>
            (let res =
                   \<lparr>gate_id = gid, gate_name = gname, decision = dec,
                    overall_score = overall, gate_passed = ok,
                    rule_results = acc_rule_results acc, gate_reason = rsn,
                    recommendations = acc_recommendations acc\<rparr>
             in
               case execution_id of
                 None \<Rightarrow> (Inr res, d)
               | Some eid \<Rightarrow>
                   if eid = [] then (Inr res, d)
                   else
                     (case log_gate_evaluation eid gid (acc_rule_results acc) dec overall rsn d of
                        (Some e, d') \<Rightarrow> (Inl e, d')
                      | (None, d') \<Rightarrow> (Inr res, d'))))"

text \<open>
  \<open>evaluate_gate\<close> (lines 55-208): the result or the exception, and the database after
  the call.
\<close>

definition prd_evaluate_gate ::
  "pylib \<Rightarrow> db \<Rightarrow> string \<Rightarrow> (string \<times> pyval) list \<Rightarrow> string option
     \<Rightarrow> (py_exn + gate_evaluation_result) \<times> db" where
  "prd_evaluate_gate L d gid ctx execution_id =
     (case fetch_node d gid of
        None \<Rightarrow> (Inl (ValueError ''Gate not found''), d)
      | Some gate \<Rightarrow>
          (case config gate of
             None \<Rightarrow> (Inl TypeError, d)
           | Some gate_config \<Rightarrow>
               (let rules = fetch_rules d gid in
                  if rules = [] then
                    (Inr \<lparr>gate_id = gid, gate_name = node_name gate, decision = ''GO'',
                          overall_score = 100, gate_passed = True, rule_results = [],
                          gate_reason = ''No rules configured, automatic pass'',
                          recommendations = []\<rparr>, d)
                  else
                    (case rules_loop L gid (node_name gate) ctx rules gate_acc_init of
                       Inl killed \<Rightarrow> (Inr killed, d)
                     | Inr acc \<Rightarrow>
                         gate_verdict L gid (node_name gate) gate_config acc execution_id d))))"

subsection \<open>Notions for stating the properties of a gate\<close>

text \<open>A rule kills the gate when it is flagged \<open>auto_kill_if_fail\<close> and does not pass.\<close>

definition kills :: "pylib \<Rightarrow> (string \<times> pyval) list \<Rightarrow> business_rule \<Rightarrow> bool" where
  "kills L ctx r = (auto_kill_if_fail (br_metadata r) \<and> \<not> passed (prd_evaluate_rule L r ctx))"


text \<open>The names of the critical rules that fail, and the notes for the rules that ask for a human.\<close>

definition failed_names ::
  "pylib \<Rightarrow> (string \<times> pyval) list \<Rightarrow> business_rule list \<Rightarrow> string list" where
  "failed_names L ctx rules =
     map br_name
       (filter (\<lambda>r. critical (br_metadata r) \<and> \<not> passed (prd_evaluate_rule L r ctx)) rules)"

definition review_notes ::
  "pylib \<Rightarrow> (string \<times> pyval) list \<Rightarrow> business_rule list \<Rightarrow> string list" where
  "review_notes L ctx rules =
     map (\<lambda>r. ''Human review required for: '' @ br_name r)
       (filter (\<lambda>r. requires_human_if_fail (br_metadata r)
                  \<and> \<not> passed (prd_evaluate_rule L r ctx)) rules)"

text \<open>
  The sum of numbers as the loop forms it: from the integer 0, one number after the
  other. The total weight of the rules, and the weighted score: the sum of weight times
  score over the rules that pass (the loop adds nothing for a rule that fails, whose
  score is 0).
\<close>

definition py_sum :: "pylib \<Rightarrow> pynum list \<Rightarrow> pynum" where
  "py_sum L xs = foldl (num_add L) (NInt 0) xs"

definition total_weight :: "pylib \<Rightarrow> business_rule list \<Rightarrow> pynum" where
  "total_weight L rules = py_sum L (map rule_weight rules)"

definition weighted_score ::
  "pylib \<Rightarrow> (string \<times> pyval) list \<Rightarrow> business_rule list \<Rightarrow> pynum" where
  "weighted_score L ctx rules =
     py_sum L
       (map (\<lambda>r. num_mul L (rule_weight r) (NFloat (score (prd_evaluate_rule L r ctx))))
          (filter (\<lambda>r. passed (prd_evaluate_rule L r ctx)) rules))"



text \<open>
  A library that converts no string and rounds nothing, for running the model on inputs
  whose runs consult the library for the arithmetic of floats only, on numbers whose
  sums, products and quotients are doubles.
\<close>

definition stub_lib :: pylib where
  "stub_lib =
     \<lparr>int_of_str = (\<lambda>s. None), float_of_str = (\<lambda>s. None), fl = (\<lambda>x. x),
      repr_of = (\<lambda>v. []), format_num = (\<lambda>spec x. []),
      re_match = (\<lambda>p s. None), getattr_of = (\<lambda>v a. PNone), exn_text = (\<lambda>e. [])\<rparr>"

subsection \<open>Example data\<close>

text \<open>
  A gate \<open>g\<close> with default settings but for its type, rules that ask for a field to be
  present, and a database that holds the gate and the given rules.
\<close>

definition not_null_rule :: "string \<Rightarrow> string \<Rightarrow> int \<Rightarrow> rule_metadata \<Rightarrow> business_rule" where
  "not_null_rule rid field prio md =
     \<lparr>br_rule_id = rid, br_gate_node_id = Some ''g'', br_name = rid,
      br_condition = PDict [(''field'', PStr field), (''operator'', PStr ''IS NOT NULL'')],
      br_priority = prio, br_enabled = True, br_metadata = md\<rparr>"

definition gate_row :: "string option \<Rightarrow> node_row" where
  "gate_row gtype =
     \<lparr>node_id = ''g'', parent_id = Some ''root'', node_type = ''gate'', node_name = ''Gate 1'',
      node_description = ''Quality gate'',
      config = Some \<lparr>gate_number = Some (PInt 1), gate_type = gtype, pass_threshold = None,
                     decision_options = None, recycle_target = None, pattern = None,
                     agent_type = None, working_memory_input = None,
                     working_memory_output = None\<rparr>\<rparr>"

definition gate_db :: "string option \<Rightarrow> business_rule list \<Rightarrow> db" where
  "gate_db gtype rules =
     \<lparr>nodes = [gate_row gtype], business_rules = rules, gate_evaluations = [], audit_log = [],
      node_executions = [], working_memory = []\<rparr>"

text \<open>
  Three rules of the gate: \<open>budget\<close> is critical and kills the gate when it fails (the
  metadata of the feasibility rule of \<open>prd_flow_builder.py\<close>, line 564), \<open>title\<close> is plain
  with a weight, \<open>owner\<close> asks for a human when it fails. In the context only \<open>title\<close>
  is present.
\<close>

definition kill_rule :: business_rule where
  "kill_rule =
     not_null_rule ''budget'' ''budget_approved'' 10
       \<lparr>weight = None, critical = True, auto_kill_if_fail = True,
        requires_human_if_fail = False\<rparr>"

definition title_rule :: "int \<Rightarrow> business_rule" where
  "title_rule w =
     not_null_rule ''title'' ''title'' 5
       \<lparr>weight = Some (NInt w), critical = False, auto_kill_if_fail = False,
        requires_human_if_fail = False\<rparr>"

definition review_rule :: business_rule where
  "review_rule =
     not_null_rule ''owner'' ''owner'' 1
       \<lparr>weight = None, critical = False, auto_kill_if_fail = False,
        requires_human_if_fail = True\<rparr>"

definition title_ctx :: "(string \<times> pyval) list" where
  "title_ctx = [(''title'', PStr ''PRD'')]"


text \<open>
  A rule that compares the title with a number: on \<open>title_ctx\<close> the title is the string
  \<open>PRD\<close>, which \<open>float\<close> does not convert.
\<close>

definition order_rule :: business_rule where
  "order_rule =
     \<lparr>br_rule_id = ''length'', br_gate_node_id = Some ''g'', br_name = ''length'',
      br_condition = PDict [(''field'', PStr ''title''), (''operator'', PStr ''>''), (''value'', PInt 3)],
      br_priority = 7, br_enabled = True,
      br_metadata = \<lparr>weight = None, critical = False, auto_kill_if_fail = False,
                      requires_human_if_fail = False\<rparr>\<rparr>"

section \<open>The flow orchestrator of prd-quality-gate-flow\<close>

text \<open>
  \<open>FlowOrchestrator\<close> of \<open>prd-quality-gate-flow/flow_orchestrator.py\<close>, on the database
  of the engine. What the code prints is left out. A node execution takes a node and an
  execution id, never an input: nodes exchange data through the working memory.
\<close>

subsection \<open>The stand-in for the agents\<close>

text \<open>The four dictionaries of \<open>_simulate_agent_output\<close> (lines 421-493).\<close>

definition prd_creator_output :: "(string \<times> pyval) list" where
  "prd_creator_output =
     [(''prd_document'',
       PDict
         [(''problem_statement'',
           PStr ''A comprehensive problem statement describing the user need and market opportunity in detail.''),
          (''target_users'',
           PList [PStr ''Product Managers'', PStr ''Engineers'', PStr ''Executives'']),
          (''success_metrics'',
           PList
             [PDict
                    [(''name'', PStr ''User Adoption''),
                     (''target'', PStr ''500 users in 3 months'')],
              PDict
                    [(''name'', PStr ''Feature Usage''),
                     (''target'', PStr ''60% weekly active'')],
              PDict [(''name'', PStr ''NPS Score''), (''target'', PStr ''>40'')]]),
          (''technical_requirements'',
           PDict
             [(''platform'', PStr ''Web''),
              (''stack'', PList [PStr ''Python'', PStr ''React'', PStr ''PostgreSQL'']),
              (''apis'', PList [PStr ''REST'', PStr ''WebSocket''])]),
          (''dependencies'',
           PDict
             [(''internal'', PList [PStr ''auth_service'', PStr ''notification_service'']),
              (''external'', PList [PStr ''stripe'', PStr ''sendgrid''])]),
          (''timeline'',
           PDict
             [(''estimated_weeks'', PInt 10),
              (''milestones'',
               PList [PStr ''Design: 2w'', PStr ''Dev: 6w'', PStr ''Testing: 2w''])]),
          (''strategic_alignment_score'', PInt 8),
          (''roi_projection'', PInt 150000),
          (''target_market_size'', PInt 5000)]),
      (''success_metrics'',
       PList [PStr ''User Adoption'', PStr ''Feature Usage'', PStr ''NPS Score'']),
      (''dependencies'',
       PList
         [PStr ''auth_service'',
          PStr ''notification_service'',
          PStr ''stripe'',
          PStr ''sendgrid''])]"

definition technical_reviewer_output :: "(string \<times> pyval) list" where
  "technical_reviewer_output =
     [(''technical_review'',
       PDict
         [(''feasibility'', PStr ''MEDIUM''),
          (''complexity_score'', PInt 6),
          (''effort_weeks'', PInt 10),
          (''risk_matrix'',
           PList
             [PDict
                    [(''risk'', PStr ''Integration complexity''),
                     (''severity'', PStr ''Medium''),
                     (''mitigation'', PStr ''POC first'')],
              PDict
                    [(''risk'', PStr ''Scalability''),
                     (''severity'', PStr ''Low''),
                     (''mitigation'', PStr ''Load testing'')]])]),
      (''feasibility_score'', PInt 75),
      (''risk_matrix'', PList [])]"

definition implementation_planner_output :: "(string \<times> pyval) list" where
  "implementation_planner_output =
     [(''implementation_plan'',
       PDict
         [(''epics'',
           PList
             [PStr ''User Authentication'',
              PStr ''Core Features'',
              PStr ''Analytics'']),
          (''timeline_feasible'', PBool True),
          (''blocking_dependencies'', PList [])]),
      (''resource_requirements'',
       PDict
         [(''team_capacity_available'', PBool True),
          (''budget_required'', PBool False),
          (''budget_approved'', PBool True)])]"

definition prd_evaluator_output :: "(string \<times> pyval) list" where
  "prd_evaluator_output =
     [(''evaluation_results'',
       PDict
         [(''success_score'', PInt 85),
          (''performance_score'', PInt 80),
          (''metrics_achieved'', PInt 3),
          (''user_feedback_positive'', PBool True)]),
      (''success_score'', PInt 85),
      (''implementation_results'', PDict [(''critical_defects_count'', PInt 0)])]"
text \<open>\<open>_simulate_agent_output\<close> (lines 413-497); it does not read its input.\<close>

definition simulate_agent_output ::
  "string option \<Rightarrow> (string \<times> pyval) list \<Rightarrow> (string \<times> pyval) list" where
  "simulate_agent_output atype input_data =
     (if atype = Some ''prd-creator'' then prd_creator_output
      else if atype = Some ''technical-reviewer'' then technical_reviewer_output
      else if atype = Some ''implementation-planner'' then implementation_planner_output
      else if atype = Some ''prd-evaluator'' then prd_evaluator_output
      else [(''status'', PStr ''completed''),
            (''agent_type'', case atype of None \<Rightarrow> PNone | Some t \<Rightarrow> PStr t)])"

subsection \<open>Children and working memory\<close>

text \<open>\<open>_get_child_nodes\<close> (lines 499-505): \<open>ORDER BY created_at\<close> is the order of the table.\<close>

definition get_child_nodes :: "db \<Rightarrow> string \<Rightarrow> node_row list" where
  "get_child_nodes d parent = filter (\<lambda>n. parent_id n = Some parent) (nodes d)"

text \<open>
  \<open>_get_working_memory\<close> (lines 516-525), entries that expire left aside, and
  \<open>_set_working_memory\<close> (lines 527-541): \<open>INSERT OR REPLACE\<close> on the key
  \<open>(memory_key, execution_id)\<close>.
\<close>

definition get_working_memory :: "db \<Rightarrow> string \<Rightarrow> (string \<times> pyval) list" where
  "get_working_memory d eid =
     dict_of_items (map snd (filter (\<lambda>row. fst row = eid) (working_memory d)))"

definition set_working_memory :: "db \<Rightarrow> string \<Rightarrow> string \<Rightarrow> pyval \<Rightarrow> db" where
  "set_working_memory d eid key v =
     d\<lparr>working_memory :=
         filter (\<lambda>row. \<not> (fst row = eid \<and> fst (snd row) = key)) (working_memory d)
           @ [(eid, key, v)]\<rparr>"

subsection \<open>The handlers of the node types\<close>

text \<open>
  Each handler takes the execution of a node, \<open>_execute_node\<close>, as its first argument
  \<open>run\<close>: the node id and the database give the outcome (an exception or the output)
  and the database after it, or nothing when the execution does not end.
\<close>

type_synonym outcome = "((py_exn + pyval) \<times> db) option"

text \<open>\<open>_execute_root_node\<close> (lines 239-255).\<close>

definition execute_root_node :: "(string \<Rightarrow> db \<Rightarrow> outcome) \<Rightarrow> db \<Rightarrow> node_row \<Rightarrow> outcome" where
  "execute_root_node run d node =
     (case get_child_nodes d (node_id node) of
        [] \<Rightarrow> Some (Inr (PDict [(''status'', PStr ''no_children'')]), d)
      | child # others \<Rightarrow> run (node_id child) d)"

text \<open>
  \<open>_execute_agent_node\<close> (lines 257-300). The values stored are outputs of the stand-in,
  which \<open>json.dumps\<close> accepts.
\<close>

definition execute_agent_node ::
  "(string \<Rightarrow> db \<Rightarrow> outcome) \<Rightarrow> string \<Rightarrow> db \<Rightarrow> node_row \<Rightarrow> node_config \<Rightarrow> outcome" where
  "execute_agent_node run eid d node cfg =
     (let wm = get_working_memory d eid;
          input_keys = (case working_memory_input cfg of None \<Rightarrow> [] | Some ks \<Rightarrow> ks);
          input_data =
            dict_of_items
              (map (\<lambda>key. (key, dict_get wm key)) (filter (\<lambda>key. key \<in> set (map fst wm)) input_keys));
          output = simulate_agent_output (agent_type cfg) input_data;
          output_keys = (case working_memory_output cfg of None \<Rightarrow> [] | Some ks \<Rightarrow> ks);
          d' = fold (\<lambda>key d0. if key \<in> set (map fst output)
                                then set_working_memory d0 eid key (dict_get output key) else d0)
                 output_keys d
      in
        case get_child_nodes d' (node_id node) of
          [] \<Rightarrow> Some (Inr (PDict output), d')
        | child # others \<Rightarrow> run (node_id child) d')"

text \<open>\<open>if recycle_target\<close>: present and not empty.\<close>

definition has_recycle_target :: "node_config \<Rightarrow> bool" where
  "has_recycle_target cfg = (case recycle_target cfg of None \<Rightarrow> False | Some t \<Rightarrow> t \<noteq> [])"

text \<open>
  \<open>_execute_gate_node\<close> (lines 302-362). In the RECYCLE branch the \<open>return\<close> is under
  \<open>if recycle_target\<close>: without a target the function ends and returns \<open>None\<close>.
\<close>

definition prd_execute_gate_node ::
  "(string \<Rightarrow> db \<Rightarrow> outcome) \<Rightarrow> pylib \<Rightarrow> string \<Rightarrow> db \<Rightarrow> node_row \<Rightarrow> node_config \<Rightarrow> outcome" where
  "prd_execute_gate_node run L eid d node cfg =
     (let ctx = get_working_memory d eid in
        case prd_evaluate_gate L d (node_id node) ctx (Some eid) of
          (Inl e, d') \<Rightarrow> Some (Inl e, d')
        | (Inr result, d') \<Rightarrow>
            if decision result \<in> set [''GO'', ''PASS'', ''APPROVE'', ''RELEASE''] then
              (case get_child_nodes d' (node_id node) of
                 [] \<Rightarrow>
                   Some (Inr (PDict [(''gate_passed'', PBool True),
                                     (''decision'', PStr (decision result))]), d')
               | child # others \<Rightarrow> run (node_id child) d')
            else if decision result = ''RECYCLE'' then
              (if has_recycle_target cfg then
                 Some (Inr (PDict [(''gate_passed'', PBool False),
                                   (''decision'', PStr (decision result)),
                                   (''recycle_to'', PStr (the (recycle_target cfg)))]), d')
               else Some (Inr PNone, d'))
            else if decision result \<in> set [''HOLD'', ''QUEUE''] then
              Some (Inr (PDict [(''gate_passed'', PBool False),
                                (''decision'', PStr (decision result))]), d')
            else if decision result \<in> set [''KILL'', ''REJECT''] then
              Some (Inl (PyException
                     (''Gate '' @ (case gate_number cfg of None \<Rightarrow> ''?'' | Some g \<Rightarrow> py_str L g)
                        @ '' rejected: '' @ gate_reason result)), d')
            else if decision result = ''PENDING_HUMAN_REVIEW'' then
              Some (Inr (PDict [(''gate_passed'', PBool False),
                                (''decision'', PStr (decision result)),
                                (''pending_review'', PBool True)]), d')
            else Some (Inl (ValueError ''Unknown gate decision''), d'))"

text \<open>
  The loop of the \<open>prompt_chaining\<close> pattern (lines 378-383): each child in turn, the
  output of the last one kept. The loop itself does not look at the database, whose type
  is left open.
\<close>

fun chain_children ::
  "(string \<Rightarrow> 's \<Rightarrow> ((py_exn + pyval) \<times> 's) option) \<Rightarrow> node_row list \<Rightarrow> pyval \<Rightarrow> 's
     \<Rightarrow> ((py_exn + pyval) \<times> 's) option" where
  "chain_children run [] result d = Some (Inr result, d)"
| "chain_children run (child # children) result d =
     (case run (node_id child) d of
        None \<Rightarrow> None
      | Some (Inl e, d') \<Rightarrow> Some (Inl e, d')
      | Some (Inr v, d') \<Rightarrow> chain_children run children v d')"

text \<open>The loops that collect the outputs of the children (lines 388-392 and 403-406).\<close>

fun collect_children ::
  "(string \<Rightarrow> db \<Rightarrow> outcome) \<Rightarrow> node_row list \<Rightarrow> pyval list \<Rightarrow> db
     \<Rightarrow> ((py_exn + pyval list) \<times> db) option" where
  "collect_children run [] results d = Some (Inr results, d)"
| "collect_children run (child # children) results d =
     (case run (node_id child) d of
        None \<Rightarrow> None
      | Some (Inl e, d') \<Rightarrow> Some (Inl e, d')
      | Some (Inr v, d') \<Rightarrow> collect_children run children (results @ [v]) d')"

text \<open>\<open>_execute_control_flow_node\<close> (lines 364-411).\<close>

definition prd_execute_control_flow_node ::
  "(string \<Rightarrow> db \<Rightarrow> outcome) \<Rightarrow> db \<Rightarrow> node_row \<Rightarrow> node_config \<Rightarrow> outcome" where
  "prd_execute_control_flow_node run d node cfg =
     (let pat = (case pattern cfg of None \<Rightarrow> ''prompt_chaining'' | Some p \<Rightarrow> p);
          children = get_child_nodes d (node_id node)
      in
        if pat = ''prompt_chaining'' then chain_children run children (PDict []) d
        else if pat = ''parallelization'' then
          (case collect_children run children [] d of
             None \<Rightarrow> None
           | Some (Inl e, d') \<Rightarrow> Some (Inl e, d')
           | Some (Inr results, d') \<Rightarrow> Some (Inr (PDict [(''parallel_results'', PList results)]), d'))
        else if pat = ''orchestrator_workers'' then
          (case children of
             [] \<Rightarrow> Some (Inr (PDict []), d)
           | first # workers \<Rightarrow>
               (case run (node_id first) d of
                  None \<Rightarrow> None
                | Some (Inl e, d') \<Rightarrow> Some (Inl e, d')
                | Some (Inr orchestrator_result, d') \<Rightarrow>
                    (case collect_children run workers [] d' of
                       None \<Rightarrow> None
                     | Some (Inl e, d'') \<Rightarrow> Some (Inl e, d'')
                     | Some (Inr worker_results, d'') \<Rightarrow>
                         Some (Inr (PDict [(''orchestrator'', orchestrator_result),
                                           (''workers'', PList worker_results)]), d''))))
        else Some (Inl (ValueError ''Unknown control flow pattern''), d))"

subsection \<open>The execution of a node\<close>

text \<open>A node whose \<open>config\<close> column is empty has the empty dictionary for its config.\<close>

definition empty_config :: node_config where
  "empty_config =
     \<lparr>gate_number = None, gate_type = None, pass_threshold = None, decision_options = None,
      recycle_target = None, pattern = None, agent_type = None, working_memory_input = None,
      working_memory_output = None\<rparr>"

text \<open>The two UPDATEs of the row of a node execution (lines 219-224 and 230-235).\<close>

definition complete_node_execution :: "db \<Rightarrow> nat \<Rightarrow> pyval \<Rightarrow> db" where
  "complete_node_execution d i output =
     d\<lparr>node_executions :=
         (node_executions d)
           [i := (node_executions d ! i)\<lparr>ne_status := ''completed'', ne_output_data := Some output\<rparr>]\<rparr>"

definition fail_node_execution :: "db \<Rightarrow> nat \<Rightarrow> db" where
  "fail_node_execution d i =
     d\<lparr>node_executions :=
         (node_executions d)[i := (node_executions d ! i)\<lparr>ne_status := ''failed''\<rparr>]\<rparr>"

text \<open>
  \<open>_execute_node\<close> (lines 163-237), with a bound on the depth of the calls: \<open>None\<close> when
  the bound is reached. The row of the execution is inserted as running, the handler of
  the node type runs, and the row is updated to completed with the output, or to failed
  when the handler (or \<open>json.dumps\<close> of the output) raised, and the exception is raised
  again.
\<close>

primrec prd_execute_node :: "nat \<Rightarrow> pylib \<Rightarrow> string \<Rightarrow> string \<Rightarrow> db \<Rightarrow> outcome" where
  "prd_execute_node 0 L eid nid d = None"
| "prd_execute_node (Suc n) L eid nid d =
     (case fetch_node d nid of
        None \<Rightarrow> Some (Inl (ValueError ''Node not found''), d)
      | Some node \<Rightarrow>
          (let node_cfg = (case config node of None \<Rightarrow> empty_config | Some c \<Rightarrow> c);
               i = length (node_executions d);
               d1 = d\<lparr>node_executions := node_executions d @
                        [\<lparr>ne_execution_id = eid, ne_node_id = nid, ne_status = ''running'',
                          ne_output_data = None\<rparr>]\<rparr>;
               handled =
                 (if node_type node = ''root'' then
                    execute_root_node (prd_execute_node n L eid) d1 node
                  else if node_type node = ''agent'' then
                    execute_agent_node (prd_execute_node n L eid) eid d1 node node_cfg
                  else if node_type node = ''gate'' then
                    prd_execute_gate_node (prd_execute_node n L eid) L eid d1 node node_cfg
                  else if node_type node = ''control_flow'' then
                    prd_execute_control_flow_node (prd_execute_node n L eid) d1 node node_cfg
                  else Some (Inl (ValueError ''Unknown node type''), d1))
           in
             case handled of
               None \<Rightarrow> None
             | Some (Inl e, d2) \<Rightarrow> Some (Inl e, fail_node_execution d2 i)
             | Some (Inr output, d2) \<Rightarrow>
                 if json_ok output then
                   Some (Inr output, complete_node_execution d2 i output)
                 else Some (Inl TypeError, fail_node_execution d2 i)))"

text \<open>
  A critical rule of the shape the flow builder creates (\<open>{"weight": 40, "critical": True}\<close>),
  used in the examples of the orchestrator.
\<close>

definition critical_rule :: business_rule where
  "critical_rule =
     not_null_rule ''problem'' ''problem_statement'' 10
       \<lparr>weight = Some (NInt 40), critical = True, auto_kill_if_fail = False,
        requires_human_if_fail = False\<rparr>"

section \<open>The workflow patterns of agentic-flow-builder\<close>

text \<open>
  \<open>FlowOrchestrator\<close> of \<open>agentic-flow-builder/scripts/flow_orchestrator.py\<close>: the patterns
  of a control-flow node. \<open>NodeStatus\<close> is the enumeration of \<open>database.py\<close>, and
  \<open>NodeExecutionResult\<close> the dataclass of the orchestrator (its \<open>node_id\<close> is
  \<open>result_node_id\<close> here).
\<close>

datatype NodeStatus = PENDING | IN_PROGRESS | COMPLETED | FAILED | BLOCKED | SKIPPED

datatype NodeExecutionResult =
  NodeExecutionResult (result_node_id: string) (status: NodeStatus) (output_data: pyval)
    (error: "string option") (child_results: "NodeExecutionResult list option")

text \<open>
  A row of the table \<open>nodes\<close>, with the columns the patterns read. Of the database, the
  patterns read this table only; the tables that the execution of a node reads and
  writes besides are the component \<open>other_tables\<close>.
\<close>

record afb_node =
  afb_node_id :: string
  afb_parent_id :: "string option"
  afb_name :: string
  afb_position :: int

record 't flow_db =
  flow_nodes :: "afb_node list"
  other_tables :: 't

text \<open>
  \<open>get_child_nodes\<close> of \<open>database.py\<close> (lines 274-282): the children of a node,
  \<open>ORDER BY position ASC\<close>; children of equal position are in the order of the table.
\<close>

definition afb_get_child_nodes :: "'t flow_db \<Rightarrow> string \<Rightarrow> afb_node list" where
  "afb_get_child_nodes d parent =
     sort_key afb_position (filter (\<lambda>n. afb_parent_id n = Some parent) (flow_nodes d))"

text \<open>
  \<open>execute_node\<close> (lines 143-204), applied to the execution id, is the argument \<open>run\<close> of
  each pattern: the node id, the input and the database give the result of the node or
  the exception it raises, and the database after the call. What the patterns do is
  stated for every such function.
\<close>

type_synonym 't node_run =
  "string \<Rightarrow> pyval \<Rightarrow> 't flow_db \<Rightarrow> (py_exn + NodeExecutionResult) \<times> 't flow_db"

subsection \<open>Prompt chaining\<close>

text \<open>
  The loop of \<open>_execute_prompt_chaining\<close> (lines 424-432): \<open>current_data\<close> and \<open>results\<close>
  are the variables of the loop; an exception of a child leaves the function.
\<close>

fun chain_loop ::
  "'t node_run \<Rightarrow> afb_node list \<Rightarrow> pyval \<Rightarrow> NodeExecutionResult list \<Rightarrow> 't flow_db
     \<Rightarrow> (py_exn + pyval \<times> NodeExecutionResult list) \<times> 't flow_db" where
  "chain_loop run [] current_data results d = (Inr (current_data, results), d)"
| "chain_loop run (child # children) current_data results d =
     (case run (afb_node_id child) current_data d of
        (Inl e, d') \<Rightarrow> (Inl e, d')
      | (Inr result, d') \<Rightarrow>
          if status result \<noteq> COMPLETED then (Inr (current_data, results @ [result]), d')
          else chain_loop run children (output_data result) (results @ [result]) d')"

text \<open>\<open>_execute_prompt_chaining\<close> (lines 414-439).\<close>

definition execute_prompt_chaining ::
  "'t node_run \<Rightarrow> string \<Rightarrow> pyval \<Rightarrow> 't flow_db \<Rightarrow> (py_exn + NodeExecutionResult) \<times> 't flow_db" where
  "execute_prompt_chaining run nid input_data d =
     (case chain_loop run (afb_get_child_nodes d nid) input_data [] d of
        (Inl e, d') \<Rightarrow> (Inl e, d')
      | (Inr (current_data, results), d') \<Rightarrow>
          (Inr (NodeExecutionResult nid COMPLETED current_data None (Some results)), d'))"

subsection \<open>Parallelization\<close>

text \<open>
  \<open>asyncio.gather(*tasks, return_exceptions=True)\<close> (lines 497-501): one task for each
  child, all with the same input; the exception of a task is its result. The tasks are
  run one after the other in the order of the children, which is the schedule of the
  event loop when no task suspends.
\<close>

fun gather ::
  "'t node_run \<Rightarrow> afb_node list \<Rightarrow> pyval \<Rightarrow> 't flow_db
     \<Rightarrow> (py_exn + NodeExecutionResult) list \<times> 't flow_db" where
  "gather run [] input_data d = ([], d)"
| "gather run (child # children) input_data d =
     (case run (afb_node_id child) input_data d of
        (r, d') \<Rightarrow> (case gather run children input_data d' of (rs, d'') \<Rightarrow> (r # rs, d'')))"

text \<open>
  \<open>[r for r in results if isinstance(r, NodeExecutionResult) and r.status ==
  NodeStatus.COMPLETED]\<close> (line 504).
\<close>

fun successful :: "(py_exn + NodeExecutionResult) list \<Rightarrow> NodeExecutionResult list" where
  "successful [] = []"
| "successful (Inl e # rs) = successful rs"
| "successful (Inr r # rs) = (if status r = COMPLETED then r # successful rs else successful rs)"

text \<open>\<open>_execute_parallelization\<close> (lines 489-515).\<close>

definition execute_parallelization ::
  "'t node_run \<Rightarrow> string \<Rightarrow> pyval \<Rightarrow> 't flow_db \<Rightarrow> (py_exn + NodeExecutionResult) \<times> 't flow_db" where
  "execute_parallelization run nid input_data d =
     (case gather run (afb_get_child_nodes d nid) input_data d of
        (results, d') \<Rightarrow>
          (let successful_results = successful results
           in (Inr (NodeExecutionResult nid
                      (if successful_results \<noteq> [] then COMPLETED else FAILED)
                      (PDict [(''parallel_results'', PList (map output_data successful_results)),
                              (''success_count'', PInt (int (length successful_results))),
                              (''total_count'', PInt (int (length results)))])
                      None (Some successful_results)),
               d')))"

subsection \<open>Evaluator and optimizer\<close>

text \<open>\<open>d.get(k, default)\<close> of a dictionary.\<close>

definition dict_get_default :: "(string \<times> pyval) list \<Rightarrow> string \<Rightarrow> pyval \<Rightarrow> pyval" where
  "dict_get_default d k dflt = (case map_of d k of None \<Rightarrow> dflt | Some v \<Rightarrow> v)"

text \<open>
  \<open>v.get(k, default)\<close> of a value: the values of the model other than dictionaries have
  no attribute \<open>get\<close>.
\<close>

fun py_get :: "pyval \<Rightarrow> string \<Rightarrow> pyval \<Rightarrow> py_exn + pyval" where
  "py_get (PDict d) k dflt = Inr (dict_get_default d k dflt)"
| "py_get v k dflt = Inl AttributeError"

text \<open>The number of values of \<open>range(v)\<close>: \<open>v\<close> is an integer (a boolean is one).\<close>

fun py_range :: "pyval \<Rightarrow> py_exn + nat" where
  "py_range (PInt i) = Inr (nat i)"
| "py_range (PBool b) = Inr (if b then 1 else 0)"
| "py_range v = Inl TypeError"

text \<open>
  The variables of the loop of \<open>_execute_evaluator_optimizer\<close>, and its body for the
  iterations \<open>i\<close>, \<open>i + 1\<close>, ... that are left (lines 596-622).
\<close>

record optimizer_state =
  best_result :: pyval
  best_score :: pyval
  iterations :: "pyval list"

fun optimizer_loop ::
  "'t node_run \<Rightarrow> string \<Rightarrow> string \<Rightarrow> pyval \<Rightarrow> pyval \<Rightarrow> nat \<Rightarrow> nat \<Rightarrow> optimizer_state
     \<Rightarrow> 't flow_db \<Rightarrow> (py_exn + optimizer_state) \<times> 't flow_db" where
  "optimizer_loop run generator evaluator input_data threshold 0 i st d = (Inr st, d)"
| "optimizer_loop run generator evaluator input_data threshold (Suc left) i st d =
     (case run generator input_data d of
        (Inl e, d1) \<Rightarrow> (Inl e, d1)
      | (Inr gen_result, d1) \<Rightarrow>
          (case run evaluator (output_data gen_result) d1 of
             (Inl e, d2) \<Rightarrow> (Inl e, d2)
           | (Inr eval_result, d2) \<Rightarrow>
               (case py_get (output_data eval_result) ''score'' (PInt 0) of
                  Inl e \<Rightarrow> (Inl e, d2)
                | Inr sc \<Rightarrow>
                    (let its = iterations st @
                           [PDict [(''iteration'', PInt (int i + 1)),
                                   (''generation'', output_data gen_result),
                                   (''evaluation'', output_data eval_result),
                                   (''score'', sc)]]
                     in
                       case py_ord Gt sc (best_score st) of
                         Inl e \<Rightarrow> (Inl e, d2)
                       | Inr better \<Rightarrow>
                           (let st' = (if better
                                       then \<lparr>best_result = output_data gen_result, best_score = sc,
                                             iterations = its\<rparr>
                                       else st\<lparr>iterations := its\<rparr>)
                            in
                              case py_ord Ge sc threshold of
                                Inl e \<Rightarrow> (Inl e, d2)
                              | Inr met \<Rightarrow>
                                  if met then (Inr st', d2)
                                  else optimizer_loop run generator evaluator input_data threshold
                                         left (Suc i) st' d2)))))"

text \<open>
  \<open>_execute_evaluator_optimizer\<close> (lines 570-632); the config of the node is a
  dictionary.
\<close>

definition execute_evaluator_optimizer ::
  "'t node_run \<Rightarrow> string \<Rightarrow> pyval \<Rightarrow> (string \<times> pyval) list \<Rightarrow> 't flow_db
     \<Rightarrow> (py_exn + NodeExecutionResult) \<times> 't flow_db" where
  "execute_evaluator_optimizer run nid input_data cfg d =
     (case afb_get_child_nodes d nid of
        generator # evaluator # others \<Rightarrow>
          (let max_iterations = dict_get_default cfg ''max_iterations'' (PInt 3);
               threshold = dict_get_default cfg ''quality_threshold'' (PFloat (4 / 5))
           in
             case py_range max_iterations of
               Inl e \<Rightarrow> (Inl e, d)
             | Inr n \<Rightarrow>
                 (case optimizer_loop run (afb_node_id generator) (afb_node_id evaluator)
                         input_data threshold n 0
                         \<lparr>best_result = PNone, best_score = PInt 0, iterations = []\<rparr> d of
                    (Inl e, d') \<Rightarrow> (Inl e, d')
                  | (Inr st, d') \<Rightarrow>
                      (Inr (NodeExecutionResult nid COMPLETED
                              (PDict [(''best_result'', best_result st),
                                      (''best_score'', best_score st),
                                      (''iterations'', PList (iterations st)),
                                      (''total_iterations'', PInt (int (length (iterations st))))])
                              None None),
                       d')))
      | few \<Rightarrow>
          (Inr (NodeExecutionResult nid FAILED (PDict [])
                  (Some ''Evaluator-optimizer requires generator and evaluator nodes'') None),
           d))"

subsection \<open>The calls of a pattern\<close>

text \<open>
  To say which nodes a pattern executes, with which input and in which order, the
  executions are recorded: \<open>record_calls run\<close> does what \<open>run\<close> does, on a database that
  holds besides the list of the calls made so far, each with the node, the input and the
  outcome.
\<close>

type_synonym call = "string \<times> pyval \<times> (py_exn + NodeExecutionResult)"

definition call_node :: "call \<Rightarrow> string" where
  "call_node c = fst c"

definition call_input :: "call \<Rightarrow> pyval" where
  "call_input c = fst (snd c)"

definition call_result :: "call \<Rightarrow> py_exn + NodeExecutionResult" where
  "call_result c = snd (snd c)"

definition is_completed :: "py_exn + NodeExecutionResult \<Rightarrow> bool" where
  "is_completed r = (case r of Inl e \<Rightarrow> False | Inr res \<Rightarrow> status res = COMPLETED)"

definition output_of :: "py_exn + NodeExecutionResult \<Rightarrow> pyval" where
  "output_of r = (case r of Inl e \<Rightarrow> PNone | Inr res \<Rightarrow> output_data res)"

definition unrecorded :: "('t \<times> call list) flow_db \<Rightarrow> 't flow_db" where
  "unrecorded d = \<lparr>flow_nodes = flow_nodes d, other_tables = fst (other_tables d)\<rparr>"

definition calls_of :: "('t \<times> call list) flow_db \<Rightarrow> call list" where
  "calls_of d = snd (other_tables d)"

definition record_calls :: "'t node_run \<Rightarrow> ('t \<times> call list) node_run" where
  "record_calls run nid input_data d =
     (case run nid input_data (unrecorded d) of
        (r, d') \<Rightarrow>
          (r, \<lparr>flow_nodes = flow_nodes d',
               other_tables = (other_tables d', calls_of d @ [(nid, input_data, r)])\<rparr>))"

subsection \<open>Example flows\<close>

text \<open>
  The children \<open>ids\<close> of a node, in this order, and a stand-in for the execution of a
  node: the nodes of \<open>raising\<close> raise, those of \<open>skipped\<close> return with the status
  \<open>SKIPPED\<close>, the node \<open>evaluator\<close> returns the next score of \<open>scores\<close> (no score when
  they are used up), and every other node returns its name, its input and the number of
  evaluations so far. The database counts the evaluations.
\<close>

definition family :: "string \<Rightarrow> string list \<Rightarrow> afb_node list" where
  "family parent ids =
     map (\<lambda>(i, nid). \<lparr>afb_node_id = nid, afb_parent_id = Some parent, afb_name = nid,
                       afb_position = int i\<rparr>) (enumerate 0 ids)"

definition example_run :: "string list \<Rightarrow> string list \<Rightarrow> pyval list \<Rightarrow> nat node_run" where
  "example_run raising skipped scores nid input_data d =
     (if nid \<in> set raising then (Inl (PyException ''node failed''), d)
      else if nid \<in> set skipped then
        (Inr (NodeExecutionResult nid SKIPPED (PDict [(''gate_passed'', PBool False)]) None None), d)
      else if nid = ''evaluator'' then
        (Inr (NodeExecutionResult nid COMPLETED
                (PDict (if other_tables d < length scores
                        then [(''score'', scores ! other_tables d)] else []))
                None None),
         d\<lparr>other_tables := Suc (other_tables d)\<rparr>)
      else
        (Inr (NodeExecutionResult nid COMPLETED
                (PDict [(''node'', PStr nid), (''input'', input_data),
                        (''round'', PInt (int (other_tables d)))])
                None None),
         d))"

subsection \<open>The calls of the chain of prd-quality-gate-flow\<close>

text \<open>
  The same record for \<open>_execute_node\<close> of \<open>prd-quality-gate-flow\<close>, which takes no input:
  each call with the node and the outcome.
\<close>

type_synonym prd_call = "string \<times> (py_exn + pyval)"

definition prd_record_calls ::
  "(string \<Rightarrow> 's \<Rightarrow> ((py_exn + pyval) \<times> 's) option)
     \<Rightarrow> string \<Rightarrow> 's \<times> prd_call list \<Rightarrow> ((py_exn + pyval) \<times> 's \<times> prd_call list) option" where
  "prd_record_calls run nid s =
     (case run nid (fst s) of
        None \<Rightarrow> None
      | Some (r, s') \<Rightarrow> Some (r, (s', snd s @ [(nid, r)])))"

text \<open>
  A flow of \<open>prd-quality-gate-flow\<close>: the control-flow node \<open>chain\<close> (prompt chaining, the
  default) has the children \<open>children\<close>; an agent \<open>a\<close> of no particular type, the gate
  \<open>g\<close> with one critical rule that asks for \<open>status\<close>, the output of the agent, and a
  control-flow node \<open>r\<close> whose pattern the orchestrator does not know.
\<close>

definition flow_row :: "string \<Rightarrow> string \<Rightarrow> node_config option \<Rightarrow> node_row" where
  "flow_row nid ntype cfg =
     \<lparr>node_id = nid, parent_id = (if nid = ''chain'' then None else Some ''chain''),
      node_type = ntype, node_name = nid, node_description = [], config = cfg\<rparr>"

definition status_rule :: business_rule where
  "status_rule =
     not_null_rule ''has_status'' ''status'' 10
       \<lparr>weight = Some (NInt 40), critical = True, auto_kill_if_fail = False,
        requires_human_if_fail = False\<rparr>"

definition chain_db :: "node_row list \<Rightarrow> db" where
  "chain_db children =
     \<lparr>nodes = flow_row ''chain'' ''control_flow'' None # children,
      business_rules = [status_rule], gate_evaluations = [], audit_log = [],
      node_executions = [], working_memory = []\<rparr>"

definition agent_a :: node_row where
  "agent_a = flow_row ''a'' ''agent'' None"

definition gate_g :: node_row where
  "gate_g = flow_row ''g'' ''gate'' (Some empty_config)"

definition routing_r :: node_row where
  "routing_r = flow_row ''r'' ''control_flow'' (Some (empty_config\<lparr>pattern := Some ''routing''\<rparr>))"

section \<open>Verified properties\<close>

subsection \<open>The loop over the rules of a gate\<close>

lemma evaluate_rule_name [simp]: "rule_name (prd_evaluate_rule L r ctx) = br_name r"
  by (simp add: prd_evaluate_rule_def split: sum.splits prod.splits)

lemma evaluate_rule_id [simp]: "rule_id (prd_evaluate_rule L r ctx) = br_rule_id r"
  by (simp add: prd_evaluate_rule_def split: sum.splits prod.splits)




lemma rules_loop_passed:
  "passed (prd_evaluate_rule L rule ctx) \<Longrightarrow>
   rules_loop L gid gname ctx (rule # rules) acc =
     rules_loop L gid gname ctx rules
       (acc\<lparr>acc_rule_results := acc_rule_results acc @ [prd_evaluate_rule L rule ctx],
            acc_total_weight := num_add L (acc_total_weight acc) (rule_weight rule),
            acc_weighted_score :=
              num_add L (acc_weighted_score acc)
                (num_mul L (rule_weight rule) (NFloat (score (prd_evaluate_rule L rule ctx))))\<rparr>)"
  by (simp add: Let_def)

lemma rules_loop_failed:
  "\<not> passed (prd_evaluate_rule L rule ctx) \<Longrightarrow> \<not> auto_kill_if_fail (br_metadata rule) \<Longrightarrow>
   rules_loop L gid gname ctx (rule # rules) acc =
     rules_loop L gid gname ctx rules
       (acc\<lparr>acc_rule_results := acc_rule_results acc @ [prd_evaluate_rule L rule ctx],
            acc_total_weight := num_add L (acc_total_weight acc) (rule_weight rule),
            acc_critical_failures :=
              (if critical (br_metadata rule) then acc_critical_failures acc @ [br_name rule]
               else acc_critical_failures acc),
            acc_recommendations :=
              (if requires_human_if_fail (br_metadata rule)
               then acc_recommendations acc @ [''Human review required for: '' @ br_name rule]
               else acc_recommendations acc)\<rparr>)"
  by (simp add: Let_def)

lemma rules_loop_killed:
  "kills L ctx rule \<Longrightarrow>
   rules_loop L gid gname ctx (rule # rules) acc =
     Inl \<lparr>gate_id = gid, gate_name = gname, decision = ''KILL'', overall_score = 0,
          gate_passed = False,
          rule_results = acc_rule_results acc @ [prd_evaluate_rule L rule ctx],
          gate_reason = ''Critical failure: '' @ br_name rule,
          recommendations = [''Fix: '' @ reason (prd_evaluate_rule L rule ctx)]\<rparr>"
  by (simp add: Let_def kills_def)

declare rules_loop.simps(2) [simp del]

lemma rules_loop_no_kill:
  "\<forall>r\<in>set rules. \<not> kills L ctx r \<Longrightarrow>
   \<exists>acc'. rules_loop L gid gname ctx rules acc = Inr acc'
     \<and> acc_rule_results acc' = acc_rule_results acc @ map (\<lambda>r. prd_evaluate_rule L r ctx) rules
     \<and> acc_total_weight acc' = foldl (num_add L) (acc_total_weight acc) (map rule_weight rules)
     \<and> acc_weighted_score acc' =
          foldl (num_add L) (acc_weighted_score acc)
            (map (\<lambda>r. num_mul L (rule_weight r) (NFloat (score (prd_evaluate_rule L r ctx))))
               (filter (\<lambda>r. passed (prd_evaluate_rule L r ctx)) rules))
     \<and> acc_critical_failures acc' = acc_critical_failures acc @ failed_names L ctx rules
     \<and> acc_recommendations acc' = acc_recommendations acc @ review_notes L ctx rules"
proof (induction rules arbitrary: acc)
  case Nil
  then show ?case by (simp add: failed_names_def review_notes_def)
next
  case (Cons r rules)
  from Cons.prems have nk: "\<not> kills L ctx r" and rest: "\<forall>r\<in>set rules. \<not> kills L ctx r" by simp_all
  show ?case
  proof (cases "passed (prd_evaluate_rule L r ctx)")
    case True
    note step = rules_loop_passed [OF True, of gid gname rules acc]
    from Cons.IH [OF rest] obtain acc' where
      "rules_loop L gid gname ctx (r # rules) acc = Inr acc'"
      "acc_rule_results acc' = (acc_rule_results acc @ [prd_evaluate_rule L r ctx]) @ map (\<lambda>r. prd_evaluate_rule L r ctx) rules"
      "acc_total_weight acc' =
         foldl (num_add L) (num_add L (acc_total_weight acc) (rule_weight r)) (map rule_weight rules)"
      "acc_weighted_score acc' =
         foldl (num_add L)
           (num_add L (acc_weighted_score acc)
              (num_mul L (rule_weight r) (NFloat (score (prd_evaluate_rule L r ctx)))))
           (map (\<lambda>r. num_mul L (rule_weight r) (NFloat (score (prd_evaluate_rule L r ctx))))
              (filter (\<lambda>r. passed (prd_evaluate_rule L r ctx)) rules))"
      "acc_critical_failures acc' = acc_critical_failures acc @ failed_names L ctx rules"
      "acc_recommendations acc' = acc_recommendations acc @ review_notes L ctx rules"
      unfolding step by fastforce
    with True show ?thesis
      by (simp add: failed_names_def review_notes_def)
  next
    case False
    with nk have nak: "\<not> auto_kill_if_fail (br_metadata r)" by (simp add: kills_def)
    note step = rules_loop_failed [OF False nak, of gid gname rules acc]
    from Cons.IH [OF rest] obtain acc' where
      "rules_loop L gid gname ctx (r # rules) acc = Inr acc'"
      "acc_rule_results acc' = (acc_rule_results acc @ [prd_evaluate_rule L r ctx]) @ map (\<lambda>r. prd_evaluate_rule L r ctx) rules"
      "acc_total_weight acc' =
         foldl (num_add L) (num_add L (acc_total_weight acc) (rule_weight r)) (map rule_weight rules)"
      "acc_weighted_score acc' =
         foldl (num_add L) (acc_weighted_score acc)
           (map (\<lambda>r. num_mul L (rule_weight r) (NFloat (score (prd_evaluate_rule L r ctx))))
              (filter (\<lambda>r. passed (prd_evaluate_rule L r ctx)) rules))"
      "acc_critical_failures acc' = (if critical (br_metadata r) then acc_critical_failures acc @ [br_name r]
               else acc_critical_failures acc) @ failed_names L ctx rules"
      "acc_recommendations acc' = (if requires_human_if_fail (br_metadata r)
               then acc_recommendations acc @ [''Human review required for: '' @ br_name r]
               else acc_recommendations acc) @ review_notes L ctx rules"
      unfolding step by fastforce
    with False show ?thesis
      by (simp add: failed_names_def review_notes_def)
  qed
qed

lemma rules_loop_kill:
  "\<forall>r\<in>set pre. \<not> kills L ctx r \<Longrightarrow> kills L ctx k \<Longrightarrow>
   rules_loop L gid gname ctx (pre @ k # post) acc =
     Inl \<lparr>gate_id = gid, gate_name = gname, decision = ''KILL'', overall_score = 0,
          gate_passed = False,
          rule_results = acc_rule_results acc @ map (\<lambda>r. prd_evaluate_rule L r ctx) (pre @ [k]),
          gate_reason = ''Critical failure: '' @ br_name k,
          recommendations = [''Fix: '' @ reason (prd_evaluate_rule L k ctx)]\<rparr>"
proof (induction pre arbitrary: acc)
  case Nil
  then show ?case by (simp add: rules_loop_killed)
next
  case (Cons r pre)
  from Cons.prems have nk: "\<not> kills L ctx r" and rest: "\<forall>r\<in>set pre. \<not> kills L ctx r" by simp_all
  show ?case
  proof (cases "passed (prd_evaluate_rule L r ctx)")
    case True
    then show ?thesis using Cons.IH [OF rest Cons.prems(2)] by (simp add: rules_loop_passed)
  next
    case False
    with nk have "\<not> auto_kill_if_fail (br_metadata r)" by (simp add: kills_def)
    with False show ?thesis using Cons.IH [OF rest Cons.prems(2)] by (simp add: rules_loop_failed)
  qed
qed

subsection \<open>The gate as a whole\<close>

lemma not_null_rule_result:
  "prd_evaluate_rule L (not_null_rule rid f prio md) ctx =
     \<lparr>rule_id = rid, rule_name = rid,
      passed = (field_value_str L f ctx \<noteq> PNone),
      score = (if field_value_str L f ctx \<noteq> PNone then 100 else 0),
      reason = (if field_value_str L f ctx \<noteq> PNone then ''Condition satisfied'' else ''Condition not met''),
      evaluation_details =
        PDict [(''condition'', PDict [(''field'', PStr f), (''operator'', PStr ''IS NOT NULL'')]),
               (''context_snapshot'', PDict [(f, field_value_str L f ctx)])]\<rparr>"
  by (simp add: prd_evaluate_rule_def not_null_rule_def evaluate_condition.simps condition_leaf_def
      bind_r_def compare_values_def extract_relevant_context_def extract_field_paths.simps
      dict_of_items_def dict_set_def)


lemma fetch_node_gate_db [simp]: "fetch_node (gate_db gtype rules) ''g'' = Some (gate_row gtype)"
  by (simp add: fetch_node_def gate_db_def gate_row_def)





lemma gate_kill:
  assumes gate: "fetch_node d gid = Some gate" and cfg: "config gate = Some cfg"
    and split: "fetch_rules d gid = pre @ k # post"
    and pre: "\<forall>r\<in>set pre. \<not> kills L ctx r" and k: "kills L ctx k"
  shows "prd_evaluate_gate L d gid ctx execution_id =
     (Inr \<lparr>gate_id = gid, gate_name = node_name gate, decision = ''KILL'', overall_score = 0,
           gate_passed = False,
           rule_results = map (\<lambda>r. prd_evaluate_rule L r ctx) (pre @ [k]),
           gate_reason = ''Critical failure: '' @ br_name k,
           recommendations = [''Fix: '' @ reason (prd_evaluate_rule L k ctx)]\<rparr>, d)"
  using rules_loop_kill [OF pre k, of gid "node_name gate" post gate_acc_init]
  by (simp add: prd_evaluate_gate_def gate cfg split gate_acc_init_def)

lemma gate_no_kill:
  assumes gate: "fetch_node d gid = Some gate" and cfg: "config gate = Some cfg"
    and rules: "fetch_rules d gid \<noteq> []"
    and nk: "\<forall>r\<in>set (fetch_rules d gid). \<not> kills L ctx r"
  shows "prd_evaluate_gate L d gid ctx execution_id =
     gate_verdict L gid (node_name gate) cfg
       \<lparr>acc_rule_results = map (\<lambda>r. prd_evaluate_rule L r ctx) (fetch_rules d gid),
        acc_total_weight = total_weight L (fetch_rules d gid),
        acc_weighted_score = weighted_score L ctx (fetch_rules d gid),
        acc_critical_failures = failed_names L ctx (fetch_rules d gid),
        acc_recommendations = review_notes L ctx (fetch_rules d gid)\<rparr>
       execution_id d"
proof -
  from rules_loop_no_kill [OF nk, of gid "node_name gate" gate_acc_init]
  obtain acc where loop:
    "rules_loop L gid (node_name gate) ctx (fetch_rules d gid) gate_acc_init = Inr acc"
    and acc: "acc_rule_results acc = map (\<lambda>r. prd_evaluate_rule L r ctx) (fetch_rules d gid)"
    "acc_total_weight acc = total_weight L (fetch_rules d gid)"
    "acc_weighted_score acc = weighted_score L ctx (fetch_rules d gid)"
    "acc_critical_failures acc = failed_names L ctx (fetch_rules d gid)"
    "acc_recommendations acc = review_notes L ctx (fetch_rules d gid)"
    by (auto simp: gate_acc_init_def total_weight_def weighted_score_def py_sum_def)
  from acc have "acc =
       \<lparr>acc_rule_results = map (\<lambda>r. prd_evaluate_rule L r ctx) (fetch_rules d gid),
        acc_total_weight = total_weight L (fetch_rules d gid),
        acc_weighted_score = weighted_score L ctx (fetch_rules d gid),
        acc_critical_failures = failed_names L ctx (fetch_rules d gid),
        acc_recommendations = review_notes L ctx (fetch_rules d gid)\<rparr>"
    by (cases acc) simp
  with loop show ?thesis
    by (simp add: prd_evaluate_gate_def gate cfg rules Let_def)
qed

lemma fetch_rules_2 [simp]:
  "fetch_rules (gate_db gt [kill_rule, title_rule w]) ''g'' = [kill_rule, title_rule w]"
  by (simp add: fetch_rules_def gate_db_def kill_rule_def title_rule_def not_null_rule_def)



lemma budget_value: "field_value_str L ''budget_approved'' title_ctx = PNone"
  by (simp add: field_value_str.simps endswith_def title_ctx_def dict_get_def)


lemma kills_kill_rule: "kills L title_ctx kill_rule"
  by (simp add: kills_def kill_rule_def not_null_rule_result budget_value) (simp add: not_null_rule_def)


lemma kill_rule_result:
  "prd_evaluate_rule L kill_rule title_ctx =
     \<lparr>rule_id = ''budget'', rule_name = ''budget'', passed = False, score = 0,
      reason = ''Condition not met'',
      evaluation_details =
        PDict [(''condition'',
                PDict [(''field'', PStr ''budget_approved''), (''operator'', PStr ''IS NOT NULL'')]),
               (''context_snapshot'', PDict [(''budget_approved'', PNone)])]\<rparr>"
  by (simp add: kill_rule_def not_null_rule_result budget_value)



lemma gate_row_simps [simp]:
  "node_name (gate_row gt) = ''Gate 1''"
  "config (gate_row gt) =
     Some \<lparr>gate_number = Some (PInt 1), gate_type = gt, pass_threshold = None,
           decision_options = None, recycle_target = None, pattern = None,
           agent_type = None, working_memory_input = None, working_memory_output = None\<rparr>"
  by (simp_all add: gate_row_def)

lemma example_rule_names [simp]:
  "br_name kill_rule = ''budget''" "br_name (title_rule w) = ''title''" "br_name review_rule = ''owner''"
  by (simp_all add: kill_rule_def title_rule_def review_rule_def not_null_rule_def)




lemma example_rule_metadata [simp]:
  "br_metadata kill_rule =
     \<lparr>weight = None, critical = True, auto_kill_if_fail = True, requires_human_if_fail = False\<rparr>"
  "br_metadata (title_rule w) =
     \<lparr>weight = Some (NInt w), critical = False, auto_kill_if_fail = False, requires_human_if_fail = False\<rparr>"
  "br_metadata review_rule =
     \<lparr>weight = None, critical = False, auto_kill_if_fail = False, requires_human_if_fail = True\<rparr>"
  by (simp_all add: kill_rule_def title_rule_def review_rule_def not_null_rule_def)

lemma stub_lib_fl [simp]: "fl stub_lib x = x"
  by (simp add: stub_lib_def)




subsection \<open>Score and decision of a gate\<close>




subsection \<open>The auto-kill short circuit\<close>



subsection \<open>The audit records of a gate evaluation\<close>

text \<open>
  Claim C3: with an execution id, one record for each rule evaluated and one audit entry
  for the decision are written before \<open>evaluate_gate\<close> returns, also on the auto-kill
  path. The \<open>return\<close> inside the loop (lines 131-141) comes before the call of
  \<open>_log_gate_evaluation\<close> (lines 187-197): evaluated with the execution id \<open>e1\<close>, the
  gate that \<open>budget\<close> kills returns KILL and leaves both tables as they were, empty.
\<close>

theorem auto_kill_return_skips_audit:
  "prd_evaluate_gate stub_lib (gate_db None [kill_rule, title_rule 30]) ''g'' title_ctx (Some ''e1'')
     = (Inr \<lparr>gate_id = ''g'', gate_name = ''Gate 1'', decision = ''KILL'', overall_score = 0,
             gate_passed = False,
             rule_results =
               [\<lparr>rule_id = ''budget'', rule_name = ''budget'', passed = False, score = 0,
                 reason = ''Condition not met'',
                 evaluation_details =
                   PDict [(''condition'',
                           PDict [(''field'', PStr ''budget_approved''),
                                  (''operator'', PStr ''IS NOT NULL'')]),
                          (''context_snapshot'', PDict [(''budget_approved'', PNone)])]\<rparr>],
             gate_reason = ''Critical failure: budget'',
             recommendations = [''Fix: Condition not met'']\<rparr>,
        gate_db None [kill_rule, title_rule 30])
   \<and> gate_evaluations (gate_db None [kill_rule, title_rule 30]) = []
   \<and> audit_log (gate_db None [kill_rule, title_rule 30]) = []"
proof -
  let ?d = "gate_db None [kill_rule, title_rule 30]"
  have "prd_evaluate_gate stub_lib ?d ''g'' title_ctx (Some ''e1'') =
     (Inr \<lparr>gate_id = ''g'', gate_name = node_name (gate_row None), decision = ''KILL'',
           overall_score = 0, gate_passed = False,
           rule_results = map (\<lambda>r. prd_evaluate_rule stub_lib r title_ctx) ([] @ [kill_rule]),
           gate_reason = ''Critical failure: '' @ br_name kill_rule,
           recommendations = [''Fix: '' @ reason (prd_evaluate_rule stub_lib kill_rule title_ctx)]\<rparr>,
      ?d)"
    by (rule gate_kill [where post = "[title_rule 30]"]) (simp_all add: kills_kill_rule)
  then show ?thesis
    by (simp add: kill_rule_result) (simp add: gate_db_def)
qed

subsection \<open>Field resolution\<close>

text \<open>
  Claim C4: field resolution never raises; a missing key, a non-container intermediate
  value or an out-of-range bracketed index gives \<open>None\<close>. The path without brackets does
  so, but the bracketed branch of \<open>ExpressionEvaluator._get_field_value\<close> takes
  \<open>value[key][index]\<close> unguarded: on the path \<open>items[5]\<close> and the context
  \<open>{"items": [1]}\<close> the resolution raises IndexError, for every library.
\<close>

theorem afb_get_field_value_index_out_of_range:
  "afb_get_field_value L (PStr ''items[5]'') [(''items'', PList [PInt 1])] = Inl IndexError"
  by (simp add: py_int_def is_digit_def digit_val_def rstrip_def list_index_def)

subsection \<open>Validator and evaluator\<close>

text \<open>
  Claim C6: the syntax validator accepts a tree exactly when the evaluator can process it.
  On the leaf \<open>{"field": "x", "operator": "IS NULL"}\<close> the two diverge: the validator
  accepts it (a null check needs no \<open>value\<close>), while \<open>_evaluate_comparison\<close> reads
  \<open>node["value"]\<close> before it looks at the operator, so the evaluator raises for every
  library and every context.
\<close>

theorem validator_accepts_null_check_evaluator_raises:
  "validate_rule_syntax (PDict [(''field'', PStr ''x''), (''operator'', PStr ''IS NULL'')])
     = (True, None)
   \<and> evaluate L (PDict [(''field'', PStr ''x''), (''operator'', PStr ''IS NULL'')]) ctx
     = Inl (RuleEvaluationError ''Expression evaluation failed''
              (Some (KeyError (PStr ''value''))))"
  by (simp add: validate_rule_syntax_def validate_node.simps validate_comparison_def
      lookup_op_def is_null_op_def evaluate_def evaluate_node.simps evaluate_leaf_def
      evaluate_comparison_def bind_r_def)

subsection \<open>Failures of a comparison\<close>












lemma not_kills_plain [simp]:
  "\<not> kills L ctx order_rule" "\<not> kills L ctx (title_rule w)" "\<not> kills L ctx review_rule"
  by (simp_all add: kills_def order_rule_def title_rule_def review_rule_def not_null_rule_def)





subsection \<open>A gate that recycles without a recycle target\<close>

text \<open>
  Evaluating a gate writes to \<open>gate_evaluations\<close> and \<open>audit_log\<close> only; the other tables
  are as before.
\<close>

lemma log_rule_results_tables:
  "node_executions (snd (log_rule_results eid gid dec rs d)) = node_executions d
   \<and> nodes (snd (log_rule_results eid gid dec rs d)) = nodes d
   \<and> working_memory (snd (log_rule_results eid gid dec rs d)) = working_memory d
   \<and> business_rules (snd (log_rule_results eid gid dec rs d)) = business_rules d"
  by (induction rs arbitrary: d) simp_all

lemma log_gate_evaluation_tables:
  "node_executions (snd (log_gate_evaluation eid gid rs dec sc rsn d)) = node_executions d
   \<and> nodes (snd (log_gate_evaluation eid gid rs dec sc rsn d)) = nodes d
   \<and> working_memory (snd (log_gate_evaluation eid gid rs dec sc rsn d)) = working_memory d
   \<and> business_rules (snd (log_gate_evaluation eid gid rs dec sc rsn d)) = business_rules d"
  using log_rule_results_tables [of eid gid dec rs d]
  by (auto simp: log_gate_evaluation_def split: prod.splits option.splits)

lemma gate_verdict_tables:
  "node_executions (snd (gate_verdict L gid gname cfg acc eid d)) = node_executions d
   \<and> nodes (snd (gate_verdict L gid gname cfg acc eid d)) = nodes d
   \<and> working_memory (snd (gate_verdict L gid gname cfg acc eid d)) = working_memory d
   \<and> business_rules (snd (gate_verdict L gid gname cfg acc eid d)) = business_rules d"
proof -
  obtain dec ok rsn where dc: "decide L cfg (acc_critical_failures acc) (acc_recommendations acc)
      (if num_val (acc_total_weight acc) > 0
       then true_div L (acc_weighted_score acc) (acc_total_weight acc) else 0) = (dec, ok, rsn)"
    by (cases "decide L cfg (acc_critical_failures acc) (acc_recommendations acc)
      (if num_val (acc_total_weight acc) > 0
       then true_div L (acc_weighted_score acc) (acc_total_weight acc) else 0)") auto
  show ?thesis
  proof (cases eid)
    case None
    then show ?thesis by (simp add: gate_verdict_def Let_def dc)
  next
    case (Some e)
    show ?thesis
      using log_gate_evaluation_tables [of e gid "acc_rule_results acc" dec
          "if num_val (acc_total_weight acc) > 0
            then true_div L (acc_weighted_score acc) (acc_total_weight acc) else 0" rsn d]
      by (auto simp: gate_verdict_def Let_def dc Some split: prod.splits option.splits)
  qed
qed

lemma evaluate_gate_tables:
  "node_executions (snd (prd_evaluate_gate L d gid ctx eid)) = node_executions d
   \<and> nodes (snd (prd_evaluate_gate L d gid ctx eid)) = nodes d
   \<and> working_memory (snd (prd_evaluate_gate L d gid ctx eid)) = working_memory d
   \<and> business_rules (snd (prd_evaluate_gate L d gid ctx eid)) = business_rules d"
  using gate_verdict_tables
  by (auto simp: prd_evaluate_gate_def Let_def split: option.splits sum.splits)

lemma fetch_node_id: "fetch_node d nid = Some node \<Longrightarrow> node_id node = nid"
  by (auto simp: fetch_node_def dest: find_Some_iff [THEN iffD1])


lemma gate_node_recycle_no_target:
  assumes ev: "prd_evaluate_gate L d1 (node_id node) (get_working_memory d1 eid) (Some eid) = (Inr result, d2)"
    and dec: "decision result = ''RECYCLE''" and nt: "\<not> has_recycle_target cfg"
  shows "prd_execute_gate_node run L eid d1 node cfg = Some (Inr PNone, d2)"
  by (simp add: prd_execute_gate_node_def Let_def ev dec nt)

lemma critical_rule_result:
  "prd_evaluate_rule L critical_rule [] =
     \<lparr>rule_id = ''problem'', rule_name = ''problem'', passed = False, score = 0,
      reason = ''Condition not met'',
      evaluation_details =
        PDict [(''condition'',
                PDict [(''field'', PStr ''problem_statement''), (''operator'', PStr ''IS NOT NULL'')]),
               (''context_snapshot'', PDict [(''problem_statement'', PNone)])]\<rparr>"
  by (simp add: critical_rule_def not_null_rule_result field_value_str.simps endswith_def
      dict_get_def)

lemma critical_rule_simps [simp]:
  "br_name critical_rule = ''problem''"
  "br_metadata critical_rule =
     \<lparr>weight = Some (NInt 40), critical = True, auto_kill_if_fail = False, requires_human_if_fail = False\<rparr>"
  by (simp_all add: critical_rule_def not_null_rule_def)

lemma critical_gate_recycles:
  assumes d1: "d1 = (gate_db None [critical_rule])\<lparr>node_executions := rows\<rparr>"
  shows "\<exists>res d2. prd_evaluate_gate stub_lib d1 ''g'' [] (Some ''e1'') = (Inr res, d2)
           \<and> decision res = ''RECYCLE'' \<and> length (audit_log d2) = 1"
proof -
  have node: "fetch_node d1 ''g'' = Some (gate_row None)"
    by (simp add: d1 fetch_node_def gate_db_def gate_row_def)
  have rules: "fetch_rules d1 ''g'' = [critical_rule]"
    by (simp add: d1 fetch_rules_def gate_db_def critical_rule_def not_null_rule_def)
  have nk: "\<forall>r\<in>set (fetch_rules d1 ''g''). \<not> kills stub_lib [] r"
    by (simp add: rules kills_def)
  have "fetch_rules d1 ''g'' \<noteq> []" by (simp add: rules)
  note v = gate_no_kill [OF node gate_row_simps(2) this nk, of "Some ''e1''"]
  show ?thesis
    unfolding v rules
    by (simp add: critical_rule_result rule_weight_def failed_names_def review_notes_def
        total_weight_def weighted_score_def py_sum_def Let_def
        gate_verdict_def decide_def cfg_gate_type_def cfg_pass_threshold_def
        cfg_decision_options_def log_gate_evaluation_def d1 gate_db_def)
qed

text \<open>
  Claim C10. In \<open>prd-quality-gate-flow\<close>, when the gate of a gate node decides \<open>RECYCLE\<close>
  and the configuration of the node has no \<open>recycle_target\<close> (the key is absent, or its value
  is falsy), \<open>_execute_gate_node\<close> returns \<open>None\<close> without executing any other node, and
  \<open>_execute_node\<close> completes the node execution it started: it returns \<open>None\<close> and the row
  of the node execution has status \<open>completed\<close> and output \<open>None\<close>.
\<close>

theorem recycle_without_target_returns_none:
  assumes node: "fetch_node d gid = Some node" and gate: "node_type node = ''gate''"
    and cfg: "cfg = (case config node of None \<Rightarrow> empty_config | Some c \<Rightarrow> c)"
    and nt: "\<not> has_recycle_target cfg"
    and d1: "d1 = d\<lparr>node_executions := node_executions d @
                     [\<lparr>ne_execution_id = eid, ne_node_id = gid, ne_status = ''running'',
                       ne_output_data = None\<rparr>]\<rparr>"
    and ev: "prd_evaluate_gate L d1 gid (get_working_memory d1 eid) (Some eid) = (Inr result, d2)"
    and dec: "decision result = ''RECYCLE''"
  shows "(\<forall>run. prd_execute_gate_node run L eid d1 node cfg = Some (Inr PNone, d2))
     \<and> prd_execute_node (Suc n) L eid gid d
         = Some (Inr PNone, complete_node_execution d2 (length (node_executions d)) PNone)
     \<and> node_executions (complete_node_execution d2 (length (node_executions d)) PNone)
         = node_executions d @
             [\<lparr>ne_execution_id = eid, ne_node_id = gid, ne_status = ''completed'',
               ne_output_data = Some PNone\<rparr>]"
proof -
  from node have nid: "node_id node = gid" by (rule fetch_node_id)
  have h: "prd_execute_gate_node run L eid d1 node cfg = Some (Inr PNone, d2)" for run
    using ev dec nt by (intro gate_node_recycle_no_target) (simp_all add: nid)
  have ne: "node_executions d2 = node_executions d1"
    using evaluate_gate_tables [of L d1 gid "get_working_memory d1 eid" "Some eid"] by (simp add: ev)
  have run: "prd_execute_node (Suc n) L eid gid d
         = Some (Inr PNone, complete_node_execution d2 (length (node_executions d)) PNone)"
    using h [of "prd_execute_node n L eid"]
    by (simp add: node gate Let_def cfg [symmetric] d1 [symmetric])
  have tab: "node_executions (complete_node_execution d2 (length (node_executions d)) PNone)
         = node_executions d @
             [\<lparr>ne_execution_id = eid, ne_node_id = gid, ne_status = ''completed'',
               ne_output_data = Some PNone\<rparr>]"
    by (simp add: complete_node_execution_def ne d1)
  from h run tab show ?thesis by blast
qed

theorem recycle_without_target_witness:
  "\<exists>d'. prd_execute_node (Suc 0) stub_lib ''e1'' ''g'' (gate_db None [critical_rule])
           = Some (Inr PNone, d')
     \<and> node_executions d' =
         [\<lparr>ne_execution_id = ''e1'', ne_node_id = ''g'', ne_status = ''completed'',
           ne_output_data = Some PNone\<rparr>]"
proof -
  let ?d = "gate_db None [critical_rule]"
  let ?d1 = "?d\<lparr>node_executions := node_executions ?d @
                     [\<lparr>ne_execution_id = ''e1'', ne_node_id = ''g'', ne_status = ''running'',
                       ne_output_data = None\<rparr>]\<rparr>"
  have wm: "get_working_memory ?d1 ''e1'' = []"
    by (simp add: get_working_memory_def gate_db_def dict_of_items_def)
  from critical_gate_recycles [of ?d1] obtain res d2 where
    ev: "prd_evaluate_gate stub_lib ?d1 ''g'' (get_working_memory ?d1 ''e1'') (Some ''e1'') = (Inr res, d2)"
    and dec: "decision res = ''RECYCLE''"
    unfolding wm by blast
  have nt: "\<not> has_recycle_target (case config (gate_row None) of None \<Rightarrow> empty_config | Some c \<Rightarrow> c)"
    by (simp add: has_recycle_target_def)
  from recycle_without_target_returns_none
      [OF fetch_node_gate_db _ refl nt refl ev dec, of 0]
  show ?thesis
    by (simp add: gate_row_def gate_db_def)
qed

section \<open>The workflow patterns\<close>

subsection \<open>Recording the calls\<close>

text \<open>
  A recorded execution returns what the execution returns, leaves the database it leaves,
  and adds its call to the list.
\<close>

lemma children_unrecorded [simp]:
  "afb_get_child_nodes (unrecorded d) nid = afb_get_child_nodes d nid"
  by (simp add: afb_get_child_nodes_def unrecorded_def)

lemma record_calls_fst [simp]:
  "fst (record_calls run nid inp d) = fst (run nid inp (unrecorded d))"
  by (simp add: record_calls_def split: prod.splits)

lemma record_calls_unrecorded [simp]:
  "unrecorded (snd (record_calls run nid inp d)) = snd (run nid inp (unrecorded d))"
  by (simp add: record_calls_def unrecorded_def split: prod.splits)

lemma record_calls_calls [simp]:
  "calls_of (snd (record_calls run nid inp d))
     = calls_of d @ [(nid, inp, fst (run nid inp (unrecorded d)))]"
  by (simp add: record_calls_def calls_of_def split: prod.splits)

subsection \<open>Parallelization\<close>

lemma gather_Cons:
  "gather run (c # cs) inp d =
     (fst (run (afb_node_id c) inp d) # fst (gather run cs inp (snd (run (afb_node_id c) inp d))),
      snd (gather run cs inp (snd (run (afb_node_id c) inp d))))"
  by (simp split: prod.splits)

lemma gather_length: "length (fst (gather run cs inp d)) = length cs"
  by (induction cs arbitrary: d) (simp_all add: gather_Cons del: gather.simps(2))

lemma gather_recorded:
  "fst (gather (record_calls run) cs inp d) = fst (gather run cs inp (unrecorded d))
   \<and> unrecorded (snd (gather (record_calls run) cs inp d)) = snd (gather run cs inp (unrecorded d))
   \<and> calls_of (snd (gather (record_calls run) cs inp d))
       = calls_of d @ map (\<lambda>(c, r). (afb_node_id c, inp, r)) (zip cs (fst (gather run cs inp (unrecorded d))))"
  by (induction cs arbitrary: d) (simp_all add: gather_Cons del: gather.simps(2))

lemma successful_outputs:
  "map output_data (successful rs) = map output_of (filter is_completed rs)"
  by (induction rs rule: successful.induct) (simp_all add: is_completed_def output_of_def)

lemma successful_length:
  "length (successful rs) = length (filter is_completed rs)"
  by (induction rs rule: successful.induct) (simp_all add: is_completed_def)

lemma calls_zip:
  assumes "length rs = length cs"
  shows "map call_node (map (\<lambda>(c, r). (afb_node_id c, inp, r)) (zip cs rs)) = map afb_node_id cs"
    and "map call_result (map (\<lambda>(c, r). (afb_node_id c, inp, r)) (zip cs rs)) = rs"
    and "\<forall>c\<in>set (map (\<lambda>(c, r). (afb_node_id c, inp, r)) (zip cs rs)). call_input c = inp"
  using assms
  by (induction cs rs rule: list_induct2')
    (simp_all add: call_node_def call_result_def call_input_def)

lemma execute_parallelization_alt:
  "execute_parallelization run nid inp d =
     (let rs = fst (gather run (afb_get_child_nodes d nid) inp d) in
        (Inr (NodeExecutionResult nid (if successful rs \<noteq> [] then COMPLETED else FAILED)
           (PDict [(''parallel_results'', PList (map output_data (successful rs))),
                   (''success_count'', PInt (int (length (successful rs)))),
                   (''total_count'', PInt (int (length rs)))]) None (Some (successful rs))),
         snd (gather run (afb_get_child_nodes d nid) inp d)))"
  by (simp add: execute_parallelization_def Let_def split: prod.splits)

text \<open>
  Claim C8. A parallelization node (\<open>_execute_parallelization\<close> of
  \<open>agentic-flow-builder\<close>) executes every child, in the order of the children, each with
  the input of the node, whatever the others do: a child that raises or does not complete
  stops none of its siblings. The node returns a result (it never raises) whose output
  holds, under \<open>parallel_results\<close>, the outputs of the children that completed, under
  \<open>success_count\<close> their number, and under \<open>total_count\<close> the number of children.
  Recording the calls changes nothing of the result.
\<close>

theorem parallelization_aggregate:
  fixes run :: "'t node_run" and d :: "('t \<times> call list) flow_db"
  shows "\<exists>res d' calls.
      execute_parallelization (record_calls run) nid inp d = (Inr res, d')
    \<and> fst (execute_parallelization run nid inp (unrecorded d)) = Inr res
    \<and> calls_of d' = calls_of d @ calls
    \<and> map call_node calls = map afb_node_id (afb_get_child_nodes d nid)
    \<and> (\<forall>c\<in>set calls. call_input c = inp)
    \<and> output_data res =
        PDict [(''parallel_results'',
                PList (map output_of (filter is_completed (map call_result calls)))),
               (''success_count'',
                PInt (int (length (filter is_completed (map call_result calls))))),
               (''total_count'', PInt (int (length (afb_get_child_nodes d nid))))]"
proof -
  let ?cs = "afb_get_child_nodes d nid"
  let ?rs = "fst (gather run ?cs inp (unrecorded d))"
  let ?calls = "map (\<lambda>(c, r). (afb_node_id c, inp, r)) (zip ?cs ?rs)"
  let ?res = "NodeExecutionResult nid (if successful ?rs \<noteq> [] then COMPLETED else FAILED)
      (PDict [(''parallel_results'', PList (map output_data (successful ?rs))),
              (''success_count'', PInt (int (length (successful ?rs)))),
              (''total_count'', PInt (int (length ?rs)))]) None (Some (successful ?rs))"
  note g = gather_recorded [of run ?cs inp d]
  have len: "length ?rs = length ?cs" by (rule gather_length)
  have 1: "execute_parallelization (record_calls run) nid inp d
             = (Inr ?res, snd (gather (record_calls run) ?cs inp d))"
    using g by (simp add: execute_parallelization_alt Let_def)
  have 2: "fst (execute_parallelization run nid inp (unrecorded d)) = Inr ?res"
    by (simp add: execute_parallelization_alt Let_def)
  have 3: "calls_of (snd (gather (record_calls run) ?cs inp d)) = calls_of d @ ?calls"
    using g by simp
  have 4: "output_data ?res =
        PDict [(''parallel_results'',
                PList (map output_of (filter is_completed (map call_result ?calls)))),
               (''success_count'',
                PInt (int (length (filter is_completed (map call_result ?calls))))),
               (''total_count'', PInt (int (length ?cs)))]"
    by (simp only: calls_zip(2) [OF len] successful_outputs successful_length len
        NodeExecutionResult.sel)
  from 1 2 3 4 calls_zip(1,3) [OF len] show ?thesis by blast
qed


theorem parallelization_aggregate_witness:
  "\<exists>res d' calls.
      execute_parallelization (record_calls (example_run [''B''] [] [])) ''par''
          (PDict [(''task'', PStr ''t'')])
          \<lparr>flow_nodes = family ''par'' [''A'', ''B''], other_tables = (0, [])\<rparr>
        = (Inr res, d')
    \<and> calls_of d' = calls
    \<and> map call_node calls = [''A'', ''B'']
    \<and> map call_input calls = [PDict [(''task'', PStr ''t'')], PDict [(''task'', PStr ''t'')]]
    \<and> map is_completed (map call_result calls) = [True, False]
    \<and> output_data res =
        PDict [(''parallel_results'',
                PList [PDict [(''node'', PStr ''A''), (''input'', PDict [(''task'', PStr ''t'')]),
                              (''round'', PInt 0)]]),
               (''success_count'', PInt 1),
               (''total_count'', PInt 2)]"
  using parallelization_aggregate [of "example_run [''B''] [] []" "''par''"
      "PDict [(''task'', PStr ''t'')]"
      "\<lparr>flow_nodes = family ''par'' [''A'', ''B''], other_tables = (0, [])\<rparr>"]
  by (simp add: afb_get_child_nodes_def execute_parallelization_def family_def record_calls_def
      unrecorded_def calls_of_def example_run_def call_node_def call_input_def call_result_def
      is_completed_def output_of_def)

subsection \<open>Prompt chaining\<close>

text \<open>
  The calls of the loop of \<open>agentic-flow-builder\<close>: recording them changes neither the
  result nor the database, and the calls are a chain.
\<close>

lemma chain_loop_Cons:
  "chain_loop run (c # cs) data results d =
     (case fst (run (afb_node_id c) data d) of
        Inl e \<Rightarrow> (Inl e, snd (run (afb_node_id c) data d))
      | Inr result \<Rightarrow>
          if status result \<noteq> COMPLETED
          then (Inr (data, results @ [result]), snd (run (afb_node_id c) data d))
          else chain_loop run cs (output_data result) (results @ [result])
                 (snd (run (afb_node_id c) data d)))"
  by (simp split: prod.splits sum.splits)

declare chain_loop.simps(2) [simp del]

lemma chain_loop_recorded:
  "fst (chain_loop (record_calls run) cs data results d)
     = fst (chain_loop run cs data results (unrecorded d))
   \<and> unrecorded (snd (chain_loop (record_calls run) cs data results d))
     = snd (chain_loop run cs data results (unrecorded d))"
proof (induction cs arbitrary: data results d)
  case Nil
  show ?case by simp
next
  case (Cons c cs)
  show ?case
    using Cons.IH
    by (simp add: chain_loop_Cons split: sum.splits)
qed

lemma chain_loop_calls:
  "\<exists>calls.
     calls_of (snd (chain_loop (record_calls run) cs data results d)) = calls_of d @ calls
   \<and> map call_node calls = take (length calls) (map afb_node_id cs)
   \<and> map call_input calls = take (length calls) (data # map (\<lambda>c. output_of (call_result c)) calls)
   \<and> (\<forall>c\<in>set (butlast calls). is_completed (call_result c))
   \<and> (length calls < length cs \<longrightarrow> calls \<noteq> [] \<and> \<not> is_completed (call_result (last calls)))
   \<and> (\<forall>e. fst (chain_loop (record_calls run) cs data results d) = Inl e
          \<longleftrightarrow> calls \<noteq> [] \<and> call_result (last calls) = Inl e)"
proof (induction cs arbitrary: data results d)
  case Nil
  show ?case by simp
next
  case (Cons c cs)
  let ?r = "fst (run (afb_node_id c) data (unrecorded d))"
  let ?d1 = "snd (record_calls run (afb_node_id c) data d)"
  let ?call = "(afb_node_id c, data, ?r)"
  have log1: "calls_of ?d1 = calls_of d @ [?call]" by simp
  show ?case
  proof (cases "is_completed ?r")
    case False
    then have stop: "snd (chain_loop (record_calls run) (c # cs) data results d) = ?d1"
      and res: "\<And>e. fst (chain_loop (record_calls run) (c # cs) data results d) = Inl e
                  \<longleftrightarrow> ?r = Inl e"
      by (auto simp: chain_loop_Cons is_completed_def
          split: sum.splits)
    show ?thesis
      apply (rule exI [of _ "[?call]"])
      using False by (simp add: stop res log1 call_node_def call_input_def call_result_def)
  next
    case True
    then obtain result where r: "?r = Inr result" and st: "status result = COMPLETED"
      by (auto simp: is_completed_def split: sum.splits)
    have step: "chain_loop (record_calls run) (c # cs) data results d
        = chain_loop (record_calls run) cs (output_data result) (results @ [result]) ?d1"
      by (simp add: chain_loop_Cons r st)
    from Cons.IH [of "output_data result" "results @ [result]" ?d1]
    obtain calls where
      1: "calls_of (snd (chain_loop (record_calls run) cs (output_data result) (results @ [result]) ?d1))
            = calls_of ?d1 @ calls"
      and 2: "map call_node calls = take (length calls) (map afb_node_id cs)"
      and 3: "map call_input calls
            = take (length calls) (output_data result # map (\<lambda>c. output_of (call_result c)) calls)"
      and 4: "\<forall>c\<in>set (butlast calls). is_completed (call_result c)"
      and 5: "length calls < length cs \<longrightarrow> calls \<noteq> [] \<and> \<not> is_completed (call_result (last calls))"
      and 6: "\<forall>e. fst (chain_loop (record_calls run) cs (output_data result) (results @ [result]) ?d1) = Inl e
          \<longleftrightarrow> calls \<noteq> [] \<and> call_result (last calls) = Inl e"
      by blast
    have cr: "call_result ?call = Inr result" "call_node ?call = afb_node_id c"
      "call_input ?call = data" "output_of (call_result ?call) = output_data result"
      "is_completed (call_result ?call)"
      using r st by (simp_all add: call_result_def call_node_def call_input_def output_of_def
          is_completed_def)
    show ?thesis
    proof (intro exI [of _ "?call # calls"] conjI)
      show "calls_of (snd (chain_loop (record_calls run) (c # cs) data results d))
              = calls_of d @ ?call # calls"
        unfolding step 1 log1 by simp
      show "map call_node (?call # calls) = take (length (?call # calls)) (map afb_node_id (c # cs))"
        using 2 cr(2) by simp
      show "map call_input (?call # calls)
              = take (length (?call # calls))
                  (data # map (\<lambda>c. output_of (call_result c)) (?call # calls))"
        using 3 cr(3,4) by simp
      show "\<forall>c\<in>set (butlast (?call # calls)). is_completed (call_result c)"
        using 4 cr(5) by (cases calls) auto
      show "length (?call # calls) < length (c # cs) \<longrightarrow>
              ?call # calls \<noteq> [] \<and> \<not> is_completed (call_result (last (?call # calls)))"
        using 5 by auto
      show "\<forall>e. fst (chain_loop (record_calls run) (c # cs) data results d) = Inl e
          \<longleftrightarrow> ?call # calls \<noteq> [] \<and> call_result (last (?call # calls)) = Inl e"
        unfolding step using 6 cr(1) by (cases calls) auto
    qed
  qed
qed

text \<open>
  The loop of \<open>prd-quality-gate-flow\<close>, and the run of a chain whose first child is an
  agent and whose second child is a gate.
\<close>

lemma chain_children_calls:
  assumes "chain_children (prd_record_calls run) cs r0 (s, lg) = Some (out, (s', lg'))"
  shows "\<exists>calls. lg' = lg @ calls
     \<and> chain_children run cs r0 s = Some (out, s')
     \<and> map fst calls = take (length calls) (map node_id cs)
     \<and> (\<forall>c\<in>set (butlast calls). \<exists>v. snd c = Inr v)
     \<and> (length calls < length cs \<longrightarrow> calls \<noteq> [] \<and> (\<exists>e. snd (last calls) = Inl e \<and> out = Inl e))"
  using assms
proof (induction cs arbitrary: r0 s lg)
  case Nil
  then show ?case by simp
next
  case (Cons c cs)
  from Cons.prems obtain r s1 where run: "run (node_id c) s = Some (r, s1)"
    by (auto simp: prd_record_calls_def split: option.splits)
  then have rec: "prd_record_calls run (node_id c) (s, lg) = Some (r, (s1, lg @ [(node_id c, r)]))"
    by (simp add: prd_record_calls_def)
  show ?case
  proof (cases r)
    case (Inl e)
    with Cons.prems rec run have "out = Inl e" "s' = s1" "lg' = lg @ [(node_id c, r)]"
      by auto
    then show ?thesis
      using run Inl by (intro exI [of _ "[(node_id c, r)]"]) simp
  next
    case (Inr v)
    with Cons.prems rec have
      "chain_children (prd_record_calls run) cs v (s1, lg @ [(node_id c, r)]) = Some (out, (s', lg'))"
      by simp
    from Cons.IH [OF this] obtain calls where
      1: "lg' = (lg @ [(node_id c, r)]) @ calls"
      and 2: "chain_children run cs v s1 = Some (out, s')"
      and 3: "map fst calls = take (length calls) (map node_id cs)"
      and 4: "\<forall>c\<in>set (butlast calls). \<exists>v. snd c = Inr v"
      and 5: "length calls < length cs \<longrightarrow> calls \<noteq> [] \<and> (\<exists>e. snd (last calls) = Inl e \<and> out = Inl e)"
      by blast
    show ?thesis
    proof (intro exI [of _ "(node_id c, r) # calls"] conjI)
      show "lg' = lg @ (node_id c, r) # calls" using 1 by simp
      show "chain_children run (c # cs) r0 s = Some (out, s')" using 2 run Inr by simp
      show "map fst ((node_id c, r) # calls)
              = take (length ((node_id c, r) # calls)) (map node_id (c # cs))"
        using 3 by simp
      show "\<forall>c\<in>set (butlast ((node_id c, r) # calls)). \<exists>v. snd c = Inr v"
        using 4 Inr by (cases calls) auto
      show "length ((node_id c, r) # calls) < length (c # cs) \<longrightarrow>
              (node_id c, r) # calls \<noteq> []
              \<and> (\<exists>e. snd (last ((node_id c, r) # calls)) = Inl e \<and> out = Inl e)"
        using 5 by auto
    qed
  qed
qed

lemma status_rule_result:
  "prd_evaluate_rule L status_rule [] =
     \<lparr>rule_id = ''has_status'', rule_name = ''has_status'', passed = False, score = 0,
      reason = ''Condition not met'',
      evaluation_details =
        PDict [(''condition'',
                PDict [(''field'', PStr ''status''), (''operator'', PStr ''IS NOT NULL'')]),
               (''context_snapshot'', PDict [(''status'', PNone)])]\<rparr>"
  by (simp add: status_rule_def not_null_rule_result field_value_str.simps endswith_def
      dict_get_def)

lemma chain_gate_evaluation:
  assumes n: "nodes d = nodes (chain_db [agent_a, gate_g])"
    and r: "business_rules d = [status_rule]"
  shows "prd_evaluate_gate stub_lib d ''g'' [] (Some ''e1'') =
     (Inr \<lparr>gate_id = ''g'', gate_name = ''g'', decision = ''RECYCLE'', overall_score = 0,
           gate_passed = False, rule_results = [prd_evaluate_rule stub_lib status_rule []],
           gate_reason = ''Critical failures: has_status'', recommendations = []\<rparr>,
      d\<lparr>gate_evaluations := gate_evaluations d @
            [evaluation_row ''e1'' ''g'' ''RECYCLE'' (prd_evaluate_rule stub_lib status_rule [])],
        audit_log := audit_log d @
            [gate_audit_row ''e1'' ''g'' [prd_evaluate_rule stub_lib status_rule []] ''RECYCLE'' 0
               ''Critical failures: has_status'']\<rparr>)"
proof -
  have node: "fetch_node d ''g'' = Some gate_g"
    by (simp add: n fetch_node_def chain_db_def gate_g_def agent_a_def flow_row_def)
  have cfg: "config gate_g = Some empty_config" by (simp add: gate_g_def flow_row_def)
  have rules: "fetch_rules d ''g'' = [status_rule]"
    by (simp add: r fetch_rules_def status_rule_def not_null_rule_def)
  have nk: "\<forall>r\<in>set (fetch_rules d ''g''). \<not> kills stub_lib [] r"
    by (simp add: rules kills_def status_rule_def not_null_rule_def)
  have "fetch_rules d ''g'' \<noteq> []" by (simp add: rules)
  note v = gate_no_kill [OF node cfg this nk, of "Some ''e1''"]
  have md: "br_metadata status_rule =
     \<lparr>weight = Some (NInt 40), critical = True, auto_kill_if_fail = False, requires_human_if_fail = False\<rparr>"
    "br_name status_rule = ''has_status''"
    by (simp_all add: status_rule_def not_null_rule_def)
  have nm: "node_name gate_g = ''g''" by (simp add: gate_g_def flow_row_def)
  show ?thesis
    unfolding v rules
    by (simp add: status_rule_result md nm rule_weight_def failed_names_def review_notes_def
        total_weight_def weighted_score_def py_sum_def stub_lib_def
        gate_verdict_def decide_def cfg_gate_type_def cfg_pass_threshold_def
        cfg_decision_options_def log_gate_evaluation_def empty_config_def)
qed


lemma chain_db_nodes:
  "fetch_node (d\<lparr>node_executions := rows\<rparr>) = fetch_node d"
  "nodes (chain_db cs) = flow_row ''chain'' ''control_flow'' None # cs"
  by (simp_all add: fetch_node_def chain_db_def fun_eq_iff)

lemma agent_a_step:
  assumes n: "nodes d = nodes (chain_db [agent_a, gate_g])" and w: "working_memory d = []"
  shows "prd_execute_node (Suc n) L ''e1'' ''a'' d =
     Some (Inr (PDict [(''status'', PStr ''completed''), (''agent_type'', PNone)]),
           d\<lparr>node_executions := node_executions d @
                [\<lparr>ne_execution_id = ''e1'', ne_node_id = ''a'', ne_status = ''completed'',
                  ne_output_data = Some (PDict [(''status'', PStr ''completed''), (''agent_type'', PNone)])\<rparr>]\<rparr>)"
  by (simp add: n w fetch_node_def chain_db_def agent_a_def gate_g_def flow_row_def Let_def
      execute_agent_node_def get_working_memory_def dict_of_items_def empty_config_def
      simulate_agent_output_def get_child_nodes_def complete_node_execution_def)

lemma gate_g_step:
  assumes n: "nodes d = nodes (chain_db [agent_a, gate_g])" and w: "working_memory d = []"
    and r: "business_rules d = [status_rule]"
  shows "prd_execute_node (Suc n) stub_lib ''e1'' ''g'' d =
     Some (Inr PNone,
           d\<lparr>node_executions := node_executions d @
                [\<lparr>ne_execution_id = ''e1'', ne_node_id = ''g'', ne_status = ''completed'',
                  ne_output_data = Some PNone\<rparr>],
             gate_evaluations := gate_evaluations d @
               [evaluation_row ''e1'' ''g'' ''RECYCLE'' (prd_evaluate_rule stub_lib status_rule [])],
             audit_log := audit_log d @
               [gate_audit_row ''e1'' ''g'' [prd_evaluate_rule stub_lib status_rule []] ''RECYCLE'' 0
                  ''Critical failures: has_status'']\<rparr>)"
proof -
  let ?d1 = "d\<lparr>node_executions := node_executions d @
                [\<lparr>ne_execution_id = ''e1'', ne_node_id = ''g'', ne_status = ''running'',
                  ne_output_data = None\<rparr>]\<rparr>"
  have node: "fetch_node d ''g'' = Some gate_g"
    by (simp add: n fetch_node_def chain_db_def gate_g_def agent_a_def flow_row_def)
  have g: "node_type gate_g = ''gate''" "config gate_g = Some empty_config" "node_id gate_g = ''g''"
    by (simp_all add: gate_g_def flow_row_def)
  have wm: "get_working_memory ?d1 ''e1'' = []"
    by (simp add: get_working_memory_def w dict_of_items_def)
  note ev = chain_gate_evaluation [of ?d1, simplified, OF n r]
  have h: "prd_execute_gate_node run stub_lib ''e1'' ?d1 gate_g empty_config
      = Some (Inr PNone, snd (prd_evaluate_gate stub_lib ?d1 ''g'' [] (Some ''e1'')))" for run
    by (rule gate_node_recycle_no_target [where result = "projr (fst (prd_evaluate_gate stub_lib ?d1 ''g'' [] (Some ''e1'')))"])
      (simp_all add: g wm ev has_recycle_target_def empty_config_def)
  show ?thesis
    by (simp add: node g Let_def h) (simp add: ev complete_node_execution_def)
qed


lemma chain_example_run:
  "prd_execute_node (Suc (Suc n)) stub_lib ''e1'' ''chain'' (chain_db [agent_a, gate_g]) =
     Some (Inr PNone,
       (chain_db [agent_a, gate_g])
         \<lparr>node_executions :=
            [\<lparr>ne_execution_id = ''e1'', ne_node_id = ''chain'', ne_status = ''completed'',
              ne_output_data = Some PNone\<rparr>,
             \<lparr>ne_execution_id = ''e1'', ne_node_id = ''a'', ne_status = ''completed'',
               ne_output_data = Some (PDict [(''status'', PStr ''completed''), (''agent_type'', PNone)])\<rparr>,
             \<lparr>ne_execution_id = ''e1'', ne_node_id = ''g'', ne_status = ''completed'',
               ne_output_data = Some PNone\<rparr>],
          gate_evaluations :=
            [evaluation_row ''e1'' ''g'' ''RECYCLE'' (prd_evaluate_rule stub_lib status_rule [])],
          audit_log :=
            [gate_audit_row ''e1'' ''g'' [prd_evaluate_rule stub_lib status_rule []] ''RECYCLE'' 0
               ''Critical failures: has_status'']\<rparr>)"
proof -
  let ?d0 = "chain_db [agent_a, gate_g]"
  let ?d1 = "?d0\<lparr>node_executions :=
      [\<lparr>ne_execution_id = ''e1'', ne_node_id = ''chain'', ne_status = ''running'',
        ne_output_data = None\<rparr>]\<rparr>"
  have node: "fetch_node ?d0 ''chain'' = Some (flow_row ''chain'' ''control_flow'' None)"
    by (simp add: fetch_node_def chain_db_def flow_row_def)
  have kids: "get_child_nodes ?d1 ''chain'' = [agent_a, gate_g]"
    by (simp add: get_child_nodes_def chain_db_def flow_row_def agent_a_def gate_g_def)
  have d0: "node_executions ?d0 = []" "working_memory ?d0 = []" "business_rules ?d0 = [status_rule]"
    "gate_evaluations ?d0 = []" "audit_log ?d0 = []"
    by (simp_all add: chain_db_def)
  have ids: "node_id agent_a = ''a''" "node_id gate_g = ''g''"
    by (simp_all add: agent_a_def gate_g_def flow_row_def)
  have chain: "chain_children (prd_execute_node (Suc n) stub_lib ''e1'') [agent_a, gate_g] (PDict []) ?d1
      = Some (Inr PNone,
         ?d0\<lparr>node_executions :=
            [\<lparr>ne_execution_id = ''e1'', ne_node_id = ''chain'', ne_status = ''running'',
              ne_output_data = None\<rparr>,
             \<lparr>ne_execution_id = ''e1'', ne_node_id = ''a'', ne_status = ''completed'',
               ne_output_data = Some (PDict [(''status'', PStr ''completed''), (''agent_type'', PNone)])\<rparr>,
             \<lparr>ne_execution_id = ''e1'', ne_node_id = ''g'', ne_status = ''completed'',
               ne_output_data = Some PNone\<rparr>],
          gate_evaluations :=
            [evaluation_row ''e1'' ''g'' ''RECYCLE'' (prd_evaluate_rule stub_lib status_rule [])],
          audit_log :=
            [gate_audit_row ''e1'' ''g'' [prd_evaluate_rule stub_lib status_rule []] ''RECYCLE'' 0
               ''Critical failures: has_status'']\<rparr>)"
    by (simp add: ids agent_a_step gate_g_step d0 del: prd_execute_node.simps)
  have top: "node_type (flow_row ''chain'' ''control_flow'' None) = ''control_flow''"
    "config (flow_row ''chain'' ''control_flow'' None) = None"
    "node_id (flow_row ''chain'' ''control_flow'' None) = ''chain''"
    by (simp_all add: flow_row_def)
  show ?thesis
    apply (subst prd_execute_node.simps(2))
    apply (simp add: node top Let_def prd_execute_control_flow_node_def d0 kids chain
        empty_config_def complete_node_execution_def
        del: prd_execute_node.simps(2) chain_children.simps)
    done
qed

lemma prompt_chaining_alt:
  "execute_prompt_chaining run nid inp d =
     (case fst (chain_loop run (afb_get_child_nodes d nid) inp [] d) of
        Inl e \<Rightarrow> Inl e
      | Inr cr \<Rightarrow> Inr (NodeExecutionResult nid COMPLETED (fst cr) None (Some (snd cr))),
      snd (chain_loop run (afb_get_child_nodes d nid) inp [] d))"
  by (simp add: execute_prompt_chaining_def split: prod.splits sum.splits)

lemma children_sorted: "sorted (map afb_position (afb_get_child_nodes d nid))"
  by (simp add: afb_get_child_nodes_def)

lemma prd_chain_pattern:
  "pattern cfg = None \<or> pattern cfg = Some ''prompt_chaining'' \<Longrightarrow>
   prd_execute_control_flow_node run d node cfg
     = chain_children run (get_child_nodes d (node_id node)) (PDict []) d"
  by (auto simp: prd_execute_control_flow_node_def Let_def)

text \<open>
  Claim C7, as the code has it. In \<open>agentic-flow-builder\<close> a prompt-chaining node executes
  its children in sibling order (the order of \<open>position\<close>): the calls are a prefix of the
  children, the first child gets the input of the node and each later one the output
  of the child before it, every call but the last returned with the status \<open>COMPLETED\<close>,
  and the children are not all executed only when the last call raised or returned with
  another status. In \<open>prd-quality-gate-flow\<close>, where the execution of a node takes no
  input, the chain (the pattern by default) executes the children in their order, every
  call but the last returns, and the children are not all executed only when the last
  call raised, which is then the outcome of the chain.
\<close>

theorem prompt_chaining_order:
  fixes run :: "'t node_run" and d :: "('t \<times> call list) flow_db"
    and prun :: "string \<Rightarrow> 's \<Rightarrow> ((py_exn + pyval) \<times> 's) option"
  shows "(\<exists>calls.
        calls_of (snd (execute_prompt_chaining (record_calls run) nid inp d)) = calls_of d @ calls
      \<and> fst (execute_prompt_chaining (record_calls run) nid inp d)
          = fst (execute_prompt_chaining run nid inp (unrecorded d))
      \<and> sorted (map afb_position (afb_get_child_nodes d nid))
      \<and> map call_node calls = take (length calls) (map afb_node_id (afb_get_child_nodes d nid))
      \<and> map call_input calls
          = take (length calls) (inp # map (\<lambda>c. output_of (call_result c)) calls)
      \<and> (\<forall>c\<in>set (butlast calls). is_completed (call_result c))
      \<and> (length calls < length (afb_get_child_nodes d nid) \<longrightarrow>
            calls \<noteq> [] \<and> \<not> is_completed (call_result (last calls))))
   \<and> (\<forall>out s' lg'.
         chain_children (prd_record_calls prun) cs r0 (s, lg) = Some (out, (s', lg')) \<longrightarrow>
         (\<exists>calls. lg' = lg @ calls
            \<and> chain_children prun cs r0 s = Some (out, s')
            \<and> map fst calls = take (length calls) (map node_id cs)
            \<and> (\<forall>c\<in>set (butlast calls). \<exists>v. snd c = Inr v)
            \<and> (length calls < length cs \<longrightarrow>
                  calls \<noteq> [] \<and> (\<exists>e. snd (last calls) = Inl e \<and> out = Inl e))))
   \<and> (pattern cfg = None \<or> pattern cfg = Some ''prompt_chaining'' \<longrightarrow>
         prd_execute_control_flow_node prun' pd node cfg
           = chain_children prun' (get_child_nodes pd (node_id node)) (PDict []) pd)"
proof (intro conjI allI impI)
  from chain_loop_calls [of run "afb_get_child_nodes d nid" inp "[]" d]
  obtain calls where
    1: "calls_of (snd (chain_loop (record_calls run) (afb_get_child_nodes d nid) inp [] d))
          = calls_of d @ calls"
    and 2: "map call_node calls = take (length calls) (map afb_node_id (afb_get_child_nodes d nid))"
    and 3: "map call_input calls
          = take (length calls) (inp # map (\<lambda>c. output_of (call_result c)) calls)"
    and 4: "\<forall>c\<in>set (butlast calls). is_completed (call_result c)"
    and 5: "length calls < length (afb_get_child_nodes d nid) \<longrightarrow>
            calls \<noteq> [] \<and> \<not> is_completed (call_result (last calls))"
    by blast
  have a: "calls_of (snd (execute_prompt_chaining (record_calls run) nid inp d)) = calls_of d @ calls"
    using 1 by (simp add: prompt_chaining_alt)
  have b: "fst (execute_prompt_chaining (record_calls run) nid inp d)
          = fst (execute_prompt_chaining run nid inp (unrecorded d))"
    using chain_loop_recorded [of run "afb_get_child_nodes d nid" inp "[]" d]
    by (simp add: prompt_chaining_alt)
  from a b children_sorted [of d nid] 2 3 4 5
  show "\<exists>calls.
        calls_of (snd (execute_prompt_chaining (record_calls run) nid inp d)) = calls_of d @ calls
      \<and> fst (execute_prompt_chaining (record_calls run) nid inp d)
          = fst (execute_prompt_chaining run nid inp (unrecorded d))
      \<and> sorted (map afb_position (afb_get_child_nodes d nid))
      \<and> map call_node calls = take (length calls) (map afb_node_id (afb_get_child_nodes d nid))
      \<and> map call_input calls
          = take (length calls) (inp # map (\<lambda>c. output_of (call_result c)) calls)
      \<and> (\<forall>c\<in>set (butlast calls). is_completed (call_result c))
      \<and> (length calls < length (afb_get_child_nodes d nid) \<longrightarrow>
            calls \<noteq> [] \<and> \<not> is_completed (call_result (last calls)))"
    by blast
next
  fix out s' lg'
  assume "chain_children (prd_record_calls prun) cs r0 (s, lg) = Some (out, (s', lg'))"
  then show "\<exists>calls. lg' = lg @ calls
            \<and> chain_children prun cs r0 s = Some (out, s')
            \<and> map fst calls = take (length calls) (map node_id cs)
            \<and> (\<forall>c\<in>set (butlast calls). \<exists>v. snd c = Inr v)
            \<and> (length calls < length cs \<longrightarrow>
                  calls \<noteq> [] \<and> (\<exists>e. snd (last calls) = Inl e \<and> out = Inl e))"
    by (rule chain_children_calls)
next
  assume "pattern cfg = None \<or> pattern cfg = Some ''prompt_chaining''"
  then show "prd_execute_control_flow_node prun' pd node cfg
           = chain_children prun' (get_child_nodes pd (node_id node)) (PDict []) pd"
    by (rule prd_chain_pattern)
qed

theorem prompt_chaining_order_witness:
  "map call_node (calls_of (snd (execute_prompt_chaining
        (record_calls (example_run [] [''B''] [])) ''chain'' (PDict [(''task'', PStr ''t'')])
        \<lparr>flow_nodes = family ''chain'' [''A'', ''B'', ''C''], other_tables = (0, [])\<rparr>)))
     = [''A'', ''B'']
   \<and> map call_input (calls_of (snd (execute_prompt_chaining
        (record_calls (example_run [] [''B''] [])) ''chain'' (PDict [(''task'', PStr ''t'')])
        \<lparr>flow_nodes = family ''chain'' [''A'', ''B'', ''C''], other_tables = (0, [])\<rparr>)))
     = [PDict [(''task'', PStr ''t'')],
        PDict [(''node'', PStr ''A''), (''input'', PDict [(''task'', PStr ''t'')]),
               (''round'', PInt 0)]]
   \<and> map is_completed (map call_result (calls_of (snd (execute_prompt_chaining
        (record_calls (example_run [] [''B''] [])) ''chain'' (PDict [(''task'', PStr ''t'')])
        \<lparr>flow_nodes = family ''chain'' [''A'', ''B'', ''C''], other_tables = (0, [])\<rparr>))))
     = [True, False]
   \<and> chain_children (prd_record_calls (prd_execute_node 2 stub_lib ''e1''))
        [routing_r, agent_a] (PDict []) (chain_db [routing_r, agent_a], [])
     = Some (Inl (ValueError ''Unknown control flow pattern''),
             (chain_db [routing_r, agent_a])
               \<lparr>node_executions :=
                  [\<lparr>ne_execution_id = ''e1'', ne_node_id = ''r'', ne_status = ''failed'',
                    ne_output_data = None\<rparr>]\<rparr>,
             [(''r'', Inl (ValueError ''Unknown control flow pattern''))])
   \<and> prd_execute_control_flow_node (prd_execute_node 2 stub_lib ''e1'')
        (chain_db [routing_r, agent_a]) (flow_row ''chain'' ''control_flow'' None) empty_config
     = chain_children (prd_execute_node 2 stub_lib ''e1'')
         (get_child_nodes (chain_db [routing_r, agent_a]) ''chain'') (PDict [])
         (chain_db [routing_r, agent_a])"
  using prompt_chaining_order [of "example_run [] [''B''] []" "''chain''"
      "PDict [(''task'', PStr ''t'')]"
      "\<lparr>flow_nodes = family ''chain'' [''A'', ''B'', ''C''], other_tables = (0, [])\<rparr>"
      "prd_execute_node 2 stub_lib ''e1''" "[routing_r, agent_a]" "PDict []"
      "chain_db [routing_r, agent_a]" "[]" empty_config "prd_execute_node 2 stub_lib ''e1''"
      "chain_db [routing_r, agent_a]" "flow_row ''chain'' ''control_flow'' None"]
  by (simp add: afb_get_child_nodes_def execute_prompt_chaining_def family_def record_calls_def
      unrecorded_def calls_of_def example_run_def call_node_def call_input_def call_result_def
      is_completed_def output_of_def chain_loop.simps numeral_2_eq_2 prd_record_calls_def
      fetch_node_def chain_db_def routing_r_def agent_a_def flow_row_def empty_config_def
      prd_execute_control_flow_node_def get_child_nodes_def fail_node_execution_def Let_def)

text \<open>
  In \<open>prd-quality-gate-flow\<close> the output of a child is not the input of the next one: in
  the chain of the agent \<open>a\<close> and the gate \<open>g\<close>, the agent returns a \<open>status\<close>, and the
  gate, whose rule asks for \<open>status\<close>, finds none in its context (the working memory of
  the execution) and fails.
\<close>

theorem chain_output_not_passed_on:
  "map ne_node_id (node_executions (snd (the
      (prd_execute_node 3 stub_lib ''e1'' ''chain'' (chain_db [agent_a, gate_g])))))
     = [''chain'', ''a'', ''g'']
   \<and> map ne_output_data (node_executions (snd (the
      (prd_execute_node 3 stub_lib ''e1'' ''chain'' (chain_db [agent_a, gate_g])))))
     = [Some PNone,
        Some (PDict [(''status'', PStr ''completed''), (''agent_type'', PNone)]),
        Some PNone]
   \<and> map ge_context_snapshot (gate_evaluations (snd (the
      (prd_execute_node 3 stub_lib ''e1'' ''chain'' (chain_db [agent_a, gate_g])))))
     = [PDict [(''condition'',
                PDict [(''field'', PStr ''status''), (''operator'', PStr ''IS NOT NULL'')]),
               (''context_snapshot'', PDict [(''status'', PNone)])]]
   \<and> map ge_evaluation_result (gate_evaluations (snd (the
      (prd_execute_node 3 stub_lib ''e1'' ''chain'' (chain_db [agent_a, gate_g])))))
     = [False]"
  using chain_example_run [of "Suc 0"]
  by (simp add: numeral_3_eq_3 evaluation_row_def status_rule_result
      del: prd_execute_node.simps)

end
